theory Spec2Isabelle
  imports Complex_Main "HOL-Library.Sublist" "HOL-Library.AList"
begin

section \<open>Values shared by the services\<close>

text \<open>
  The backend is Python. A \<open>str\<close> that only ever holds ASCII (fund and stock codes, cache
  keys, file names) is a \<open>string\<close>. A display name holds Chinese text, and Python's
  \<open>in\<close> on \<open>str\<close> compares code points, so such a name is the list of its code points.
\<close>

type_synonym ustring = "nat list"

text \<open>
  The exceptions that the modelled paths can meet. All of them derive from \<open>Exception\<close>,
  so every \<open>except Exception\<close> of the source catches them.
\<close>

datatype exn = ConnectError | JSONDecodeError | ValueError | AttributeError | OSError | KeyError

text \<open>
  A field that the source turns into a number with \<open>float(x) if x else None\<close> (or, for the
  stock quotes, \<open>float(x)\<close> when \<open>x is not None\<close>): the field is missing or falsy, or
  \<open>float\<close> raises on it, or it converts to a float. The floats themselves are never
  computed with, so their type is left open.
\<close>

datatype 'f jnum = JNull | JBad | JNum 'f

fun to_float :: "'f jnum \<Rightarrow> exn + 'f option" where
  "to_float JNull = Inr None"
| "to_float JBad = Inl ValueError"
| "to_float (JNum x) = Inr (Some x)"

text \<open>
  What \<open>await self.client.get(...)\<close> gives: it raises, or it returns a response with a
  status code and a body. The body is kept as what the caller's decoder makes of it.
\<close>

datatype 'b reply = Raised | Reply nat 'b

section \<open>intraday_store.py: dates and times\<close>

text \<open>
  \<open>datetime.date\<close>, \<open>datetime.time\<close> and the naive \<open>datetime.datetime\<close>, with the
  comparisons of Python: field by field, most significant first.
\<close>

record pydate =
  year :: nat
  month :: nat
  day :: nat

record pytime =
  hour :: nat
  minute :: nat
  second :: nat
  microsecond :: nat

record datetime =
  date :: pydate
  time :: pytime

definition date_lt :: "pydate \<Rightarrow> pydate \<Rightarrow> bool" where
  "date_lt a b =
     (year a < year b \<or> (year a = year b \<and>
        (month a < month b \<or> (month a = month b \<and> day a < day b))))"

definition time_lt :: "pytime \<Rightarrow> pytime \<Rightarrow> bool" where
  "time_lt a b =
     (hour a < hour b \<or> (hour a = hour b \<and>
        (minute a < minute b \<or> (minute a = minute b \<and>
           (second a < second b \<or> (second a = second b \<and> microsecond a < microsecond b))))))"

definition time_le :: "pytime \<Rightarrow> pytime \<Rightarrow> bool" where
  "time_le a b = (time_lt a b \<or> a = b)"

definition datetime_lt :: "datetime \<Rightarrow> datetime \<Rightarrow> bool" where
  "datetime_lt a b =
     (date_lt (date a) (date b) \<or> (date a = date b \<and> time_lt (time a) (time b)))"

definition datetime_ge :: "datetime \<Rightarrow> datetime \<Rightarrow> bool" where
  "datetime_ge a b = (\<not> datetime_lt a b)"

text \<open>\<open>time(h, m)\<close> and \<open>datetime.combine\<close>.\<close>

definition mk_time :: "nat \<Rightarrow> nat \<Rightarrow> pytime" where
  "mk_time h m = \<lparr>hour = h, minute = m, second = 0, microsecond = 0\<rparr>"

definition combine :: "pydate \<Rightarrow> pytime \<Rightarrow> datetime" where
  "combine d t = \<lparr>date = d, time = t\<rparr>"

definition MARKET_OPEN :: pytime where "MARKET_OPEN = mk_time 9 30"
definition MARKET_CLOSE :: pytime where "MARKET_CLOSE = mk_time 15 0"
definition CLEAR_TIME :: pytime where "CLEAR_TIME = mk_time 9 0"

text \<open>\<open>strftime("%Y-%m-%d")\<close> and \<open>strftime("%H:%M:%S")\<close>: zero-padded decimal fields.\<close>

definition digit :: "nat \<Rightarrow> char" where
  "digit n = ''0123456789'' ! (n mod 10)"

definition two_digits :: "nat \<Rightarrow> string" where
  "two_digits n = [digit (n div 10), digit n]"

definition four_digits :: "nat \<Rightarrow> string" where
  "four_digits n = [digit (n div 1000), digit (n div 100), digit (n div 10), digit n]"

definition strftime_ymd :: "pydate \<Rightarrow> string" where
  "strftime_ymd d = four_digits (year d) @ ''-'' @ two_digits (month d) @ ''-'' @ two_digits (day d)"

definition strftime_hms :: "pytime \<Rightarrow> string" where
  "strftime_hms t = two_digits (hour t) @ '':'' @ two_digits (minute t) @ '':'' @ two_digits (second t)"

text \<open>
  \<open>date.toordinal\<close>, the proleptic Gregorian day number that date subtraction uses:
  \<open>(today - file_date).days\<close> is the difference of the two ordinals. It is meant for the
  dates that Python can build, with a month from 1 to 12.
\<close>

definition is_leap :: "nat \<Rightarrow> bool" where
  "is_leap y = (y mod 4 = 0 \<and> (y mod 100 \<noteq> 0 \<or> y mod 400 = 0))"

definition days_before_year :: "nat \<Rightarrow> int" where
  "days_before_year y =
     (let y1 = int y - 1 in y1 * 365 + y1 div 4 - y1 div 100 + y1 div 400)"

definition days_before_month :: "nat \<Rightarrow> nat \<Rightarrow> int" where
  "days_before_month y m =
     int ([0, 0, 31, 59, 90, 120, 151, 181, 212, 243, 273, 304, 334] ! m)
       + (if m > 2 \<and> is_leap y then 1 else 0)"

definition toordinal :: "pydate \<Rightarrow> int" where
  "toordinal d = days_before_year (year d) + days_before_month (year d) (month d) + int (day d)"

definition days_between :: "pydate \<Rightarrow> pydate \<Rightarrow> int" where
  "days_between today file_date = toordinal today - toordinal file_date"

section \<open>intraday_store.py: the persisted artifact\<close>

text \<open>
  One sample \<open>{"time": ..., "change": ...}\<close>, and the document of one day. The
  \<open>last_update\<close> key holds the text that \<open>datetime.now().isoformat()\<close> wrote; the model
  keeps what \<open>_should_clear_data\<close> sees of it: the key is missing or falsy, or
  \<open>fromisoformat\<close> raises on it, or it parses to a naive datetime (\<open>fromisoformat\<close> gives
  back the datetime that \<open>isoformat\<close> printed; the store writes no other kind, and a
  timestamp with a UTC offset is not modelled). The \<open>funds\<close> key may be missing.
\<close>

record 'f sample =
  sample_time :: string
  change :: 'f

datatype last_update_field = LuMissing | LuInvalid | LuStamp datetime

record 'f artifact =
  doc_date :: "string option"
  last_update :: last_update_field
  funds :: "(string \<rightharpoonup> 'f sample list) option"

text \<open>
  The directory \<open>INTRADAY_DIR\<close>: its \<open>*.json\<close> files by stem, each holding a document or
  something that \<open>open\<close> and \<open>json.load\<close> cannot turn into one; and whether the
  directory accepts changes (when not, \<open>open(file_path, "w")\<close> and \<open>unlink\<close> raise
  \<open>OSError\<close> and change nothing).
\<close>

datatype 'f file_content = NotJson | Doc "'f artifact"

record 'f intraday_dir =
  files :: "(string \<times> 'f file_content) list"
  writable :: bool

text \<open>
  The operations of the store read the clock several times in one call; the model gives a
  call one reading, \<open>now\<close>. \<open>_get_today_file\<close> (lines 31-34) names the file of the day.
\<close>

definition get_today_file :: "datetime \<Rightarrow> string" where
  "get_today_file now = strftime_ymd (date now)"

text \<open>The fresh dictionary \<open>{"date": today, "funds": {}}\<close>.\<close>

definition fresh_data :: "datetime \<Rightarrow> 'f artifact" where
  "fresh_data now =
     \<lparr>doc_date = Some (strftime_ymd (date now)), last_update = LuMissing, funds = Some Map.empty\<rparr>"

text \<open>\<open>_should_clear_data\<close> (lines 53-74); an exception inside the \<open>try\<close> ends in \<open>return False\<close>.\<close>

definition should_clear_data :: "datetime \<Rightarrow> 'f artifact \<Rightarrow> bool" where
  "should_clear_data now data =
     (case last_update data of
        LuMissing \<Rightarrow> False
      | LuInvalid \<Rightarrow> False
      | LuStamp lu \<Rightarrow>
          if date_lt (date lu) (date now) then True
          else
            let clear_datetime = combine (date now) CLEAR_TIME in
            if datetime_ge now clear_datetime \<and> datetime_lt lu clear_datetime then True
            else False)"

text \<open>\<open>_read_intraday_data\<close> (lines 37-50).\<close>

definition read_intraday_data :: "datetime \<Rightarrow> 'f intraday_dir \<Rightarrow> 'f artifact" where
  "read_intraday_data now dir =
     (case map_of (files dir) (get_today_file now) of
        None \<Rightarrow> fresh_data now
      | Some NotJson \<Rightarrow> fresh_data now
      | Some (Doc data) \<Rightarrow> if should_clear_data now data then fresh_data now else data)"

text \<open>\<open>_write_intraday_data\<close> (lines 77-87): the whole file is replaced, or nothing is.\<close>

definition write_intraday_data ::
  "datetime \<Rightarrow> 'f artifact \<Rightarrow> 'f intraday_dir \<Rightarrow> bool \<times> 'f intraday_dir" where
  "write_intraday_data now data dir =
     (if writable dir
      then (True, dir\<lparr>files := AList.update (get_today_file now) (Doc data) (files dir)\<rparr>)
      else (False, dir))"

text \<open>\<open>_is_trading_time\<close> (lines 90-93).\<close>

definition is_trading_time :: "datetime \<Rightarrow> bool" where
  "is_trading_time now = (time_le MARKET_OPEN (time now) \<and> time_le (time now) MARKET_CLOSE)"

text \<open>The three statements that append one sample to the list of a code (lines 125-129).\<close>

definition append_sample ::
  "string \<Rightarrow> 'f sample \<Rightarrow> (string \<rightharpoonup> 'f sample list) \<Rightarrow> (string \<rightharpoonup> 'f sample list)" where
  "append_sample code smp fs =
     (case fs code of None \<Rightarrow> fs(code \<mapsto> [smp]) | Some l \<Rightarrow> fs(code \<mapsto> l @ [smp]))"

definition funds_or_empty :: "'f artifact \<Rightarrow> (string \<rightharpoonup> 'f sample list)" where
  "funds_or_empty data = (case funds data of None \<Rightarrow> Map.empty | Some fs \<Rightarrow> fs)"

text \<open>\<open>save_fund_change\<close> (lines 101-131).\<close>

definition save_fund_change ::
  "datetime \<Rightarrow> string \<Rightarrow> 'f \<Rightarrow> string option \<Rightarrow> 'f intraday_dir \<Rightarrow> bool \<times> 'f intraday_dir" where
  "save_fund_change now code chg timestamp dir =
     (if \<not> is_trading_time now then (False, dir)
      else
        let ts = (case timestamp of None \<Rightarrow> strftime_hms (time now) | Some t \<Rightarrow> t);
            data = read_intraday_data now dir;
            data1 = data\<lparr>last_update := LuStamp now\<rparr>;
            fs = funds_or_empty data1;
            fs' = append_sample code \<lparr>sample_time = ts, change = chg\<rparr> fs
        in write_intraday_data now (data1\<lparr>funds := Some fs'\<rparr>) dir)"

text \<open>The loop of \<open>save_funds_changes_batch\<close> over \<open>changes.items()\<close> (lines 154-161).\<close>

fun append_changes ::
  "string \<Rightarrow> (string \<times> 'f option) list \<Rightarrow> (string \<rightharpoonup> 'f sample list)
     \<Rightarrow> (string \<rightharpoonup> 'f sample list)" where
  "append_changes ts [] fs = fs"
| "append_changes ts ((code, None) # rest) fs = append_changes ts rest fs"
| "append_changes ts ((code, Some chg) # rest) fs =
     append_changes ts rest (append_sample code \<lparr>sample_time = ts, change = chg\<rparr> fs)"

text \<open>\<open>save_funds_changes_batch\<close> (lines 134-163).\<close>

definition save_funds_changes_batch ::
  "datetime \<Rightarrow> (string \<times> 'f option) list \<Rightarrow> 'f intraday_dir \<Rightarrow> bool \<times> 'f intraday_dir" where
  "save_funds_changes_batch now changes dir =
     (if \<not> is_trading_time now then (False, dir)
      else
        let ts = strftime_hms (time now);
            data = read_intraday_data now dir;
            data1 = data\<lparr>last_update := LuStamp now\<rparr>;
            fs' = append_changes ts changes (funds_or_empty data1)
        in write_intraday_data now (data1\<lparr>funds := Some fs'\<rparr>) dir)"

text \<open>
  \<open>get_fund_intraday\<close> (lines 166-177) and \<open>get_funds_intraday_batch\<close> (lines 180-197).
  Every operation on the directory returns the directory it leaves behind; the two reads
  call nothing that writes, so they return the one they were given.
\<close>

definition lookup_samples :: "(string \<rightharpoonup> 'f sample list) \<Rightarrow> string \<Rightarrow> 'f sample list" where
  "lookup_samples funds_data code = (case funds_data code of None \<Rightarrow> [] | Some l \<Rightarrow> l)"

definition get_fund_intraday ::
  "datetime \<Rightarrow> string \<Rightarrow> 'f intraday_dir \<Rightarrow> 'f sample list \<times> 'f intraday_dir" where
  "get_fund_intraday now code dir =
     (let data = read_intraday_data now dir
      in (lookup_samples (funds_or_empty data) code, dir))"

fun intraday_batch_loop ::
  "(string \<rightharpoonup> 'f sample list) \<Rightarrow> string list \<Rightarrow> (string \<rightharpoonup> 'f sample list)
     \<Rightarrow> (string \<rightharpoonup> 'f sample list)" where
  "intraday_batch_loop funds_data [] result = result"
| "intraday_batch_loop funds_data (code # codes) result =
     intraday_batch_loop funds_data codes (result(code \<mapsto> lookup_samples funds_data code))"

definition get_funds_intraday_batch ::
  "datetime \<Rightarrow> string list \<Rightarrow> 'f intraday_dir
     \<Rightarrow> (string \<rightharpoonup> 'f sample list) \<times> 'f intraday_dir" where
  "get_funds_intraday_batch now codes dir =
     (let data = read_intraday_data now dir;
          funds_data = funds_or_empty data
      in (intraday_batch_loop funds_data codes Map.empty, dir))"

text \<open>\<open>clear_intraday_data\<close> (lines 200-203).\<close>

definition clear_intraday_data :: "datetime \<Rightarrow> 'f intraday_dir \<Rightarrow> bool \<times> 'f intraday_dir" where
  "clear_intraday_data now dir = write_intraday_data now (fresh_data now) dir"

text \<open>
  \<open>cleanup_old_files\<close> (lines 206-237). \<open>strptime\<close> stands for
  \<open>datetime.strptime(date_str, "%Y-%m-%d").date()\<close>, \<open>None\<close> where it raises. The loop
  visits the stems that \<open>glob("*.json")\<close> lists; \<open>unlink\<close> removes the file of a listed
  stem or raises. The inner \<open>except\<close> clause takes both the error of \<open>strptime\<close> and the
  error of \<open>unlink\<close> to the next file, so the result is a plain count.
\<close>

definition unlink :: "string \<Rightarrow> 'f intraday_dir \<Rightarrow> exn + 'f intraday_dir" where
  "unlink stem dir =
     (if writable dir then Inr (dir\<lparr>files := AList.delete stem (files dir)\<rparr>) else Inl OSError)"

fun cleanup_loop ::
  "(string \<Rightarrow> pydate option) \<Rightarrow> pydate \<Rightarrow> int \<Rightarrow> string list \<Rightarrow> nat \<Rightarrow> 'f intraday_dir
     \<Rightarrow> nat \<times> 'f intraday_dir" where
  "cleanup_loop strptime today keep_days [] deleted dir = (deleted, dir)"
| "cleanup_loop strptime today keep_days (date_str # rest) deleted dir =
     (case strptime date_str of
        None \<Rightarrow> cleanup_loop strptime today keep_days rest deleted dir
      | Some file_date \<Rightarrow>
          let days_diff = days_between today file_date in
          if days_diff > keep_days then
            (case unlink date_str dir of
               Inl e \<Rightarrow> cleanup_loop strptime today keep_days rest deleted dir
             | Inr dir' \<Rightarrow> cleanup_loop strptime today keep_days rest (deleted + 1) dir')
          else cleanup_loop strptime today keep_days rest deleted dir)"

definition cleanup_old_files ::
  "(string \<Rightarrow> pydate option) \<Rightarrow> datetime \<Rightarrow> int \<Rightarrow> 'f intraday_dir \<Rightarrow> nat \<times> 'f intraday_dir" where
  "cleanup_old_files strptime now keep_days dir =
     cleanup_loop strptime (date now) keep_days (map fst (files dir)) 0 dir"

section \<open>intraday_store.py: notions that the statements use\<close>

text \<open>A datetime given by its date and the four fields of its time of day.\<close>

definition at_time :: "pydate \<Rightarrow> nat \<Rightarrow> nat \<Rightarrow> nat \<Rightarrow> nat \<Rightarrow> datetime" where
  "at_time d h m s us = \<lparr>date = d, time = \<lparr>hour = h, minute = m, second = s, microsecond = us\<rparr>\<rparr>"

text \<open>
  Staleness as the specification words it: the last update is from a prior calendar date,
  or it is from today, before the 09:00 boundary, while the current time is at or after
  the boundary. A document without a readable last update is not stale.
\<close>

definition stale_by_spec :: "datetime \<Rightarrow> last_update_field \<Rightarrow> bool" where
  "stale_by_spec now field =
     (case field of
        LuStamp lu \<Rightarrow>
          date_lt (date lu) (date now)
          \<or> (date lu = date now \<and> time_lt (time lu) CLEAR_TIME \<and> time_le CLEAR_TIME (time now))
      | _ \<Rightarrow> False)"

text \<open>
  The files that the retention sweep is to delete, as the specification words it: the stem
  parses as a date, and that date is strictly more than \<open>keep_days\<close> days before today.
\<close>

definition is_old :: "(string \<Rightarrow> pydate option) \<Rightarrow> pydate \<Rightarrow> int \<Rightarrow> string \<Rightarrow> bool" where
  "is_old strptime today keep_days stem =
     (case strptime stem of
        None \<Rightarrow> False
      | Some file_date \<Rightarrow> keep_days < days_between today file_date)"

text \<open>
  A parser to run the sweep on concrete file names: \<open>strptime\<close> for the format
  \<open>%Y-%m-%d\<close> on ASCII text. The year is four digits, the month matches
  \<open>1[0-2]|0[1-9]|[1-9]\<close>, the day matches \<open>3[01]|[12]\d|0[1-9]|[1-9]| [1-9]\<close>, nothing may
  follow, and the three numbers must form a date of the calendar.
\<close>

fun split_dash :: "string \<Rightarrow> string list" where
  "split_dash [] = [[]]"
| "split_dash (c # cs) =
     (if c = CHR ''-'' then [] # split_dash cs
      else (case split_dash cs of [] \<Rightarrow> [[c]] | p # ps \<Rightarrow> (c # p) # ps))"

definition is_digit :: "char \<Rightarrow> bool" where
  "is_digit c = (c \<in> set ''0123456789'')"

definition is_nonzero_digit :: "char \<Rightarrow> bool" where
  "is_nonzero_digit c = (c \<in> set ''123456789'')"

definition number :: "string \<Rightarrow> nat" where
  "number s = foldl (\<lambda>n c. 10 * n + (of_char c - 48)) 0 (filter is_digit s)"

fun month_field :: "string \<Rightarrow> bool" where
  "month_field [a] = is_nonzero_digit a"
| "month_field [a, b] =
     ((a = CHR ''1'' \<and> b \<in> set ''012'') \<or> (a = CHR ''0'' \<and> is_nonzero_digit b))"
| "month_field _ = False"

fun day_field :: "string \<Rightarrow> bool" where
  "day_field [a] = is_nonzero_digit a"
| "day_field [a, b] =
     ((a = CHR ''3'' \<and> b \<in> set ''01'') \<or> (a \<in> set ''12'' \<and> is_digit b)
      \<or> (a = CHR ''0'' \<and> is_nonzero_digit b) \<or> (a = CHR '' '' \<and> is_nonzero_digit b))"
| "day_field _ = False"

definition days_in_month :: "nat \<Rightarrow> nat \<Rightarrow> nat" where
  "days_in_month y m =
     (if m = 2 \<and> is_leap y then 29 else [0, 31, 28, 31, 30, 31, 30, 31, 31, 30, 31, 30, 31] ! m)"

definition strptime_ymd :: "string \<Rightarrow> pydate option" where
  "strptime_ymd s =
     (case split_dash s of
        [y, m, d] \<Rightarrow>
          if length y = 4 \<and> list_all is_digit y \<and> month_field m \<and> day_field d then
            (let yy = number y; mm = number m; dd = number d
             in if 1 \<le> yy \<and> dd \<le> days_in_month yy mm
                then Some \<lparr>year = yy, month = mm, day = dd\<rparr> else None)
          else None
      | _ \<Rightarrow> None)"

text \<open>Concrete values on which the statements below are run.\<close>

definition day_0305 :: pydate where
  "day_0305 = \<lparr>year = 2024, month = 3, day = 5\<rparr>"

definition day_0304 :: pydate where
  "day_0304 = \<lparr>year = 2024, month = 3, day = 4\<rparr>"

definition doc_0850 :: "int artifact" where
  "doc_0850 =
     \<lparr>doc_date = Some ''2024-03-05'', last_update = LuStamp (at_time day_0305 8 50 0 0),
      funds = Some [''000001'' \<mapsto> [\<lparr>sample_time = ''08:50:00'', change = 12\<rparr>]]\<rparr>"


definition doc_unstamped :: "int artifact" where
  "doc_unstamped =
     \<lparr>doc_date = Some ''2024-03-05'', last_update = LuMissing,
      funds = Some [''000001'' \<mapsto> [\<lparr>sample_time = ''10:00:00'', change = 3\<rparr>]]\<rparr>"

definition dir_with :: "int artifact \<Rightarrow> int intraday_dir" where
  "dir_with a = \<lparr>files = [(''2024-03-05'', Doc a)], writable = True\<rparr>"

definition empty_dir :: "bool \<Rightarrow> int intraday_dir" where
  "empty_dir w = \<lparr>files = [], writable = w\<rparr>"

definition sweep_dir :: "bool \<Rightarrow> int intraday_dir" where
  "sweep_dir w =
     \<lparr>files = [(''2024-02-24'', NotJson), (''2024-03-02'', NotJson), (''notes'', NotJson)],
      writable = w\<rparr>"

section \<open>eastmoney_client.py: the caches\<close>

text \<open>
  The client keeps its results in \<open>cachetools.TTLCache\<close> objects and uses three operations
  of them: \<open>key in cache\<close>, \<open>cache[key]\<close> and \<open>cache[key] = value\<close>. The model keeps, per
  key, the value and the time at which it expires, and the keys from least to most
  recently used. \<open>now\<close> is the reading of the cache's timer.

  An entry counts as present while \<open>now < expires\<close> (releases of the library before 5.0
  still count it at the very instant \<open>now = expires\<close>; the statements proved below are
  about times before or after that instant). Reading an entry makes it the most
  recently used one; a key that is missing or expired raises \<open>KeyError\<close>. Storing removes
  the expired entries, then, for a new key, evicts least recently used entries until there
  is room, and stores the value to expire at \<open>now + ttl\<close>; a cache of size zero rejects
  every value with \<open>ValueError\<close>.
\<close>

record 'v ttl_cache =
  maxsize :: nat
  ttl :: real
  entries :: "string \<rightharpoonup> ('v \<times> real)"
  lru :: "string list"

definition TTLCache :: "nat \<Rightarrow> real \<Rightarrow> 'v ttl_cache" where
  "TTLCache m t = \<lparr>maxsize = m, ttl = t, entries = Map.empty, lru = []\<rparr>"

definition cache_contains :: "'v ttl_cache \<Rightarrow> real \<Rightarrow> string \<Rightarrow> bool" where
  "cache_contains c now key =
     (case entries c key of None \<Rightarrow> False | Some (v, expires) \<Rightarrow> now < expires)"

definition cache_getitem :: "'v ttl_cache \<Rightarrow> real \<Rightarrow> string \<Rightarrow> (exn + 'v) \<times> 'v ttl_cache" where
  "cache_getitem c now key =
     (case entries c key of
        None \<Rightarrow> (Inl KeyError, c)
      | Some (v, expires) \<Rightarrow>
          let c' = c\<lparr>lru := filter (\<lambda>k. k \<noteq> key) (lru c) @ [key]\<rparr>
          in if now < expires then (Inr v, c') else (Inl KeyError, c'))"

definition cache_expire :: "'v ttl_cache \<Rightarrow> real \<Rightarrow> 'v ttl_cache" where
  "cache_expire c now =
     (let live = (\<lambda>k. case entries c k of
                         None \<Rightarrow> None
                       | Some (v, expires) \<Rightarrow> if now < expires then Some (v, expires) else None)
      in c\<lparr>entries := live, lru := filter (\<lambda>k. live k \<noteq> None) (lru c)\<rparr>)"

fun cache_evict :: "nat \<Rightarrow> 'v ttl_cache \<Rightarrow> 'v ttl_cache" where
  "cache_evict 0 c = c"
| "cache_evict (Suc n) c =
     (case lru c of
        [] \<Rightarrow> c
      | k # ks \<Rightarrow> cache_evict n (c\<lparr>entries := (entries c)(k := None), lru := ks\<rparr>))"

definition cache_setitem ::
  "'v ttl_cache \<Rightarrow> real \<Rightarrow> string \<Rightarrow> 'v \<Rightarrow> exn option \<times> 'v ttl_cache" where
  "cache_setitem c now key val =
     (let c1 = cache_expire c now in
      if maxsize c1 < 1 then (Some ValueError, c1)
      else
        let c2 = (if entries c1 key \<noteq> None then c1
                  else cache_evict (length (lru c1) + 1 - maxsize c1) c1)
        in (None, c2\<lparr>entries := (entries c2)(key \<mapsto> (val, now + ttl c2)),
                     lru := filter (\<lambda>k. k \<noteq> key) (lru c2) @ [key]\<rparr>))"

section \<open>eastmoney_client.py: the client and its requests\<close>

text \<open>
  The requests that the client sends are recorded in the order they are issued, so that a
  claim about the number of network calls can be stated.
\<close>

datatype request =
  EstimateReq string
  | HistoryReq string int int "string option" "string option"
  | QuotesReq string

text \<open>\<open>str\<close> of an integer, and of an optional string inside an f-string.\<close>

fun str_nat :: "nat \<Rightarrow> string" where
  "str_nat n = (if n < 10 then [digit n] else str_nat (n div 10) @ [digit n])"

declare str_nat.simps [simp del]

definition str_int :: "int \<Rightarrow> string" where
  "str_int i = (if i < 0 then ''-'' @ str_nat (nat (- i)) else str_nat (nat i))"

definition str_opt :: "string option \<Rightarrow> string" where
  "str_opt s = (case s of None \<Rightarrow> ''None'' | Some t \<Rightarrow> t)"

text \<open>
  The dictionary that \<open>get_fund_estimate\<close> returns, one record of a history page, and the
  page that \<open>get_fund_nav_history\<close> returns.
\<close>

record 'f quote =
  q_code :: string
  q_name :: ustring
  nav :: "'f option"
  nav_date :: string
  estimate_nav :: "'f option"
  estimate_change :: "'f option"
  estimate_time :: string

record 'f nav_record =
  record_date :: string
  record_nav :: "'f option"
  acc_nav :: "'f option"
  record_change :: "'f option"

record 'f nav_page =
  total :: int
  p_page :: int
  p_per_page :: int
  records :: "'f nav_record list"

text \<open>
  The client: the two caches that the modelled methods use (\<open>__init__\<close>, lines 39 and 42)
  and the log of the requests sent. \<open>CACHE_TTL_REALTIME\<close> and \<open>CACHE_TTL_HISTORY\<close> come
  from the settings, 10 and 3600 seconds unless the environment overrides them.
\<close>

record 'f client =
  realtime_cache :: "'f quote ttl_cache"
  history_cache :: "'f nav_page ttl_cache"
  sent :: "request list"

definition EastMoneyClient :: "real \<Rightarrow> real \<Rightarrow> 'f client" where
  "EastMoneyClient CACHE_TTL_REALTIME CACHE_TTL_HISTORY =
     \<lparr>realtime_cache = TTLCache 500 CACHE_TTL_REALTIME,
      history_cache = TTLCache 100 CACHE_TTL_HISTORY,
      sent = []\<rparr>"

section \<open>eastmoney_client.py: the estimate of one fund\<close>

text \<open>
  The body of the estimate response, as the method decodes it: the regular expression
  \<open>jsonpgz\((.*?)\);?$\<close> finds nothing; or it finds text from which \<open>json.loads\<close> and the
  \<open>data.get\<close> calls raise; or it finds an object, of which the method reads seven keys
  (\<open>None\<close> for a key that is missing).
\<close>

record 'f estimate_json =
  fundcode :: "string option"
  name_key :: "ustring option"
  dwjz :: "'f jnum"
  jzrq :: "string option"
  gsz :: "'f jnum"
  gszzl :: "'f jnum"
  gztime :: "string option"

datatype 'f estimate_text = NoJsonp | JsonpInvalid | Jsonp "'f estimate_json"

text \<open>The dictionary literal at lines 79-91; each \<open>float\<close> may raise.\<close>

definition make_quote :: "string \<Rightarrow> 'f estimate_json \<Rightarrow> exn + 'f quote" where
  "make_quote code data =
     (case to_float (dwjz data) of
        Inl e \<Rightarrow> Inl e
      | Inr nav0 \<Rightarrow>
          (case to_float (gsz data) of
             Inl e \<Rightarrow> Inl e
           | Inr estimate_nav0 \<Rightarrow>
               (case to_float (gszzl data) of
                  Inl e \<Rightarrow> Inl e
                | Inr estimate_change0 \<Rightarrow>
                    Inr \<lparr>q_code = (case fundcode data of None \<Rightarrow> code | Some c \<Rightarrow> c),
                         q_name = (case name_key data of None \<Rightarrow> [] | Some n \<Rightarrow> n),
                         nav = nav0,
                         nav_date = (case jzrq data of None \<Rightarrow> [] | Some d \<Rightarrow> d),
                         estimate_nav = estimate_nav0,
                         estimate_change = estimate_change0,
                         estimate_time = (case gztime data of None \<Rightarrow> [] | Some t \<Rightarrow> t)\<rparr>)))"

text \<open>
  \<open>get_fund_estimate\<close> (lines 59-98) is a coroutine with one point of suspension, the
  \<open>await\<close> of the request at line 71. It is modelled in its two halves. The first half
  ends with a value returned from the cache (or the \<open>KeyError\<close> of the cache read, which
  is outside the \<open>try\<close>), or with the request sent. The second half takes the reply, at
  the later time \<open>finished\<close>, and ends with the returned value. The cache reads its
  timer at each operation: \<open>now\<close> is the reading of \<open>cache_key in cache\<close> (line 66),
  \<open>at_read\<close> the reading of \<open>cache[cache_key]\<close> (line 67) and \<open>finished\<close> the reading of
  the store (line 93). An entry that expires between the first two makes the read raise.
\<close>

datatype 'a started = Returned "exn + 'a" | Awaiting

definition estimate_key :: "string \<Rightarrow> string" where
  "estimate_key code = ''estimate_'' @ code"

definition estimate_begin ::
  "real \<Rightarrow> real \<Rightarrow> string \<Rightarrow> 'f client \<Rightarrow> 'f quote option started \<times> 'f client" where
  "estimate_begin now at_read code s =
     (let cache_key = estimate_key code in
      if cache_contains (realtime_cache s) now cache_key then
        (case cache_getitem (realtime_cache s) at_read cache_key of
           (Inl e, c) \<Rightarrow> (Returned (Inl e), s\<lparr>realtime_cache := c\<rparr>)
         | (Inr v, c) \<Rightarrow> (Returned (Inr (Some v)), s\<lparr>realtime_cache := c\<rparr>))
      else (Awaiting, s\<lparr>sent := sent s @ [EstimateReq code]\<rparr>))"

definition estimate_resume ::
  "'f estimate_text reply \<Rightarrow> real \<Rightarrow> string \<Rightarrow> 'f client \<Rightarrow> 'f quote option \<times> 'f client" where
  "estimate_resume response finished code s =
     (case response of
        Raised \<Rightarrow> (None, s)
      | Reply status_code text \<Rightarrow>
          if status_code = 200 then
            (case text of
               NoJsonp \<Rightarrow> (None, s)
             | JsonpInvalid \<Rightarrow> (None, s)
             | Jsonp data \<Rightarrow>
                 (case make_quote code data of
                    Inl e \<Rightarrow> (None, s)
                  | Inr result \<Rightarrow>
                      (case cache_setitem (realtime_cache s) finished (estimate_key code) result of
                         (Some e, c) \<Rightarrow> (None, s\<lparr>realtime_cache := c\<rparr>)
                       | (None, c) \<Rightarrow> (Some result, s\<lparr>realtime_cache := c\<rparr>))))
          else (None, s))"

definition get_fund_estimate ::
  "(string \<Rightarrow> 'f estimate_text reply) \<Rightarrow> real \<Rightarrow> real \<Rightarrow> real \<Rightarrow> string \<Rightarrow> 'f client
     \<Rightarrow> (exn + 'f quote option) \<times> 'f client" where
  "get_fund_estimate net now at_read finished code s =
     (case estimate_begin now at_read code s of
        (Returned r, s1) \<Rightarrow> (r, s1)
      | (Awaiting, s1) \<Rightarrow>
          (case estimate_resume (net code) finished code s1 of (r, s2) \<Rightarrow> (Inr r, s2)))"

section \<open>eastmoney_client.py: the estimates of a list of funds\<close>

text \<open>
  \<open>get_fund_estimates_batch\<close> (lines 100-112). \<open>asyncio.gather\<close> starts one task per code,
  in the order of the list; each task runs its first half, up to its request, before any
  reply is handled. The replies are then handled one task after the other (taken here in
  the order of the list), and \<open>gather\<close> gives the outcomes in the order of the list, an
  exception as a value. The final loop keeps the outcomes that are dictionaries. The tasks
  share the three timer readings.
\<close>

fun begin_all ::
  "real \<Rightarrow> real \<Rightarrow> string list \<Rightarrow> 'f client
     \<Rightarrow> (string \<times> 'f quote option started) list \<times> 'f client" where
  "begin_all now at_read [] s = ([], s)"
| "begin_all now at_read (code # codes) s =
     (case estimate_begin now at_read code s of
        (t, s1) \<Rightarrow>
          (case begin_all now at_read codes s1 of (ts, s2) \<Rightarrow> ((code, t) # ts, s2)))"

fun resume_all ::
  "(string \<Rightarrow> 'f estimate_text reply) \<Rightarrow> real \<Rightarrow> (string \<times> 'f quote option started) list
     \<Rightarrow> 'f client \<Rightarrow> (exn + 'f quote option) list \<times> 'f client" where
  "resume_all net finished [] s = ([], s)"
| "resume_all net finished ((code, Returned r) # tasks) s =
     (case resume_all net finished tasks s of (rs, s') \<Rightarrow> (r # rs, s'))"
| "resume_all net finished ((code, Awaiting) # tasks) s =
     (case estimate_resume (net code) finished code s of
        (r, s1) \<Rightarrow> (case resume_all net finished tasks s1 of (rs, s2) \<Rightarrow> (Inr r # rs, s2)))"

fun valid_results :: "(exn + 'a option) list \<Rightarrow> 'a list" where
  "valid_results [] = []"
| "valid_results (Inr (Some result) # results) = result # valid_results results"
| "valid_results (r # results) = valid_results results"

definition get_fund_estimates_batch ::
  "(string \<Rightarrow> 'f estimate_text reply) \<Rightarrow> real \<Rightarrow> real \<Rightarrow> real \<Rightarrow> string list \<Rightarrow> 'f client
     \<Rightarrow> 'f quote list \<times> 'f client" where
  "get_fund_estimates_batch net now at_read finished codes s =
     (case begin_all now at_read codes s of
        (tasks, s1) \<Rightarrow>
          (case resume_all net finished tasks s1 of
             (results, s2) \<Rightarrow> (valid_results results, s2)))"

section \<open>eastmoney_client.py: the history of net values\<close>

text \<open>
  The body of the history response, as the method decodes it: \<open>response.json()\<close> raises
  or gives something that is no object (then \<open>data.get\<close> raises); or it gives an object
  with the keys \<open>ErrCode\<close> and \<open>TotalCount\<close> (\<open>None\<close> when missing)
  and with what \<open>data.get("Data", {}).get("LSJZList", [])\<close> gives to the loop: the items,
  or an exception when \<open>Data\<close> or the list is \<open>null\<close>.
\<close>

record 'f lsjz_item =
  FSRQ :: "string option"
  DWJZ :: "'f jnum"
  LJJZ :: "'f jnum"
  JZZZL :: "'f jnum"

datatype 'f history_body =
  HistoryNotJson
  | HistoryJson "int option" "int option" "exn + 'f lsjz_item list"

text \<open>The loop at lines 350-364.\<close>

fun nav_records :: "'f nav_record list \<Rightarrow> 'f lsjz_item list \<Rightarrow> exn + 'f nav_record list" where
  "nav_records recs [] = Inr recs"
| "nav_records recs (item # items) =
     (case to_float (DWJZ item) of
        Inl e \<Rightarrow> Inl e
      | Inr nav0 \<Rightarrow>
          (case to_float (LJJZ item) of
             Inl e \<Rightarrow> Inl e
           | Inr acc_nav0 \<Rightarrow>
               (case to_float (JZZZL item) of
                  Inl e \<Rightarrow> Inl e
                | Inr change0 \<Rightarrow>
                    nav_records
                      (recs @ [\<lparr>record_date = (case FSRQ item of None \<Rightarrow> [] | Some d \<Rightarrow> d),
                                record_nav = nav0, acc_nav = acc_nav0,
                                record_change = change0\<rparr>])
                      items)))"

definition history_key ::
  "string \<Rightarrow> int \<Rightarrow> int \<Rightarrow> string option \<Rightarrow> string option \<Rightarrow> string" where
  "history_key code page per_page start_date end_date =
     ''history_'' @ code @ ''_'' @ str_int page @ ''_'' @ str_int per_page
       @ ''_'' @ str_opt start_date @ ''_'' @ str_opt end_date"

text \<open>The page returned at line 372.\<close>

definition empty_page :: "int \<Rightarrow> int \<Rightarrow> 'f nav_page" where
  "empty_page page per_page = \<lparr>total = 0, p_page = page, p_per_page = per_page, records = []\<rparr>"

text \<open>
  \<open>get_fund_nav_history\<close> (lines 308-372). The cache read at line 321 is outside the
  \<open>try\<close>, so its \<open>KeyError\<close> reaches the caller; everything after it is inside. The
  timer readings are \<open>now\<close> for the test at line 320, \<open>at_read\<close> for the read at line 321
  and \<open>finished\<close> for the store at line 366.
\<close>

definition get_fund_nav_history ::
  "(request \<Rightarrow> 'f history_body reply) \<Rightarrow> real \<Rightarrow> real \<Rightarrow> real \<Rightarrow> string \<Rightarrow> int \<Rightarrow> int
     \<Rightarrow> string option \<Rightarrow> string option \<Rightarrow> 'f client \<Rightarrow> (exn + 'f nav_page) \<times> 'f client" where
  "get_fund_nav_history net now at_read finished code page per_page start_date end_date s =
     (let cache_key = history_key code page per_page start_date end_date in
      if cache_contains (history_cache s) now cache_key then
        (case cache_getitem (history_cache s) at_read cache_key of
           (r, c) \<Rightarrow> (r, s\<lparr>history_cache := c\<rparr>))
      else
        let req = HistoryReq code page per_page start_date end_date;
            s1 = s\<lparr>sent := sent s @ [req]\<rparr>;
            failed = (Inr (empty_page page per_page), s1)
        in case net req of
             Raised \<Rightarrow> failed
           | Reply status_code body \<Rightarrow>
               if status_code = 200 then
                 (case body of
                    HistoryNotJson \<Rightarrow> failed
                  | HistoryJson err_code total_count lsjz_list \<Rightarrow>
                      if err_code = Some 0 then
                        (case lsjz_list of
                           Inl e \<Rightarrow> failed
                         | Inr items \<Rightarrow>
                             (case nav_records [] items of
                                Inl e \<Rightarrow> failed
                              | Inr recs \<Rightarrow>
                                  let result =
                                        \<lparr>total = (case total_count of None \<Rightarrow> 0 | Some n \<Rightarrow> n),
                                         p_page = page, p_per_page = per_page, records = recs\<rparr>
                                  in (case cache_setitem (history_cache s1) finished cache_key result of
                                        (Some e, c) \<Rightarrow>
                                          (Inr (empty_page page per_page), s1\<lparr>history_cache := c\<rparr>)
                                      | (None, c) \<Rightarrow> (Inr result, s1\<lparr>history_cache := c\<rparr>))))
                      else failed)
               else failed)"

section \<open>eastmoney_client.py: stock quotes\<close>

text \<open>\<open>str.startswith\<close> with a tuple of prefixes.\<close>

definition startswith :: "string \<Rightarrow> string list \<Rightarrow> bool" where
  "startswith s ps = list_ex (\<lambda>p. prefix p s) ps"

text \<open>The body of the loop at lines 387-391: the composite identifier of one code.\<close>

definition secid :: "string \<Rightarrow> string" where
  "secid code = (if startswith code [''6'', ''5'', ''9''] then ''1.'' @ code else ''0.'' @ code)"

text \<open>The loop itself: \<open>secids\<close> starts empty and grows by one identifier per code.\<close>

fun build_secids :: "string list \<Rightarrow> string list \<Rightarrow> string list" where
  "build_secids secids [] = secids"
| "build_secids secids (code # codes) = build_secids (secids @ [secid code]) codes"

text \<open>\<open>",".join(secids)\<close>\<close>

fun join_comma :: "string list \<Rightarrow> string" where
  "join_comma [] = []"
| "join_comma [s] = s"
| "join_comma (s # t # ss) = s @ '','' @ join_comma (t # ss)"

text \<open>
  One element of \<open>data["data"]["diff"]\<close>: \<open>f12\<close> is the code (\<open>""\<close> when missing) and
  \<open>f3\<close> the change. The decoded body is either no JSON object (\<open>response.json()\<close> or
  \<open>data.get\<close> raises) or an object whose \<open>diff\<close> list is given; a missing or falsy \<open>data\<close> or \<open>diff\<close> is the
  empty list.
\<close>

record 'f diff_item =
  f12 :: string
  f3 :: "'f jnum"

datatype 'f quotes_body = QuotesNotJson | QuotesDiff "'f diff_item list"

text \<open>The loop at lines 407-411, with \<open>float\<close> raising on a value that is no number.\<close>

fun collect_quotes :: "(string \<rightharpoonup> 'f) \<Rightarrow> 'f diff_item list \<Rightarrow> exn + (string \<rightharpoonup> 'f)" where
  "collect_quotes result [] = Inr result"
| "collect_quotes result (item # items) =
     (if f12 item \<noteq> [] \<and> f3 item \<noteq> JNull then
        (case to_float (f3 item) of
           Inl e \<Rightarrow> Inl e
         | Inr None \<Rightarrow> collect_quotes result items
         | Inr (Some x) \<Rightarrow> collect_quotes (result(f12 item \<mapsto> x)) items)
      else collect_quotes result items)"

text \<open>\<open>get_stock_quotes\<close> (lines 374-418); \<open>net\<close> answers the one combined request.\<close>

definition get_stock_quotes ::
  "(string \<Rightarrow> 'f quotes_body reply) \<Rightarrow> string list \<Rightarrow> 'f client
     \<Rightarrow> (string \<rightharpoonup> 'f) \<times> 'f client" where
  "get_stock_quotes net stock_codes s =
     (if stock_codes = [] then (Map.empty, s)
      else
        let secids = build_secids [] stock_codes;
            param = join_comma secids;
            s1 = s\<lparr>sent := sent s @ [QuotesReq param]\<rparr>
        in case net param of
             Raised \<Rightarrow> (Map.empty, s1)
           | Reply status_code body \<Rightarrow>
               if status_code = 200 then
                 (case body of
                    QuotesNotJson \<Rightarrow> (Map.empty, s1)
                  | QuotesDiff items \<Rightarrow>
                      (case collect_quotes Map.empty items of
                         Inl e \<Rightarrow> (Map.empty, s1)
                       | Inr result \<Rightarrow> (result, s1)))
               else (Map.empty, s1))"

section \<open>eastmoney_client.py: the sector of a fund\<close>

text \<open>Python's \<open>kw in name\<close> on strings: \<open>kw\<close> occurs in \<open>name\<close> as a contiguous piece.\<close>

fun contains :: "'a list \<Rightarrow> 'a list \<Rightarrow> bool" where
  "contains kw [] = (kw = [])"
| "contains kw (c # cs) = (prefix kw (c # cs) \<or> contains kw cs)"

text \<open>
  The table at lines 454-525, in its order, each string by its code points. The label of a
  row is its first component, the keywords are the second.
\<close>

definition sector_keywords :: "(ustring \<times> ustring list) list" where
  "sector_keywords =
    [
     ([0x5149, 0x4F0F],
        [[0x5149, 0x4F0F], [0x592A, 0x9633, 0x80FD]]),
     ([0x9502, 0x7535],
        [[0x9502, 0x7535], [0x9502, 0x7535, 0x6C60], [0x52A8, 0x529B, 0x7535, 0x6C60], [0x7535, 0x6C60]]),
     ([0x50A8, 0x80FD],
        [[0x50A8, 0x80FD]]),
     ([0x65B0, 0x80FD, 0x6E90, 0x8F66],
        [[0x65B0, 0x80FD, 0x6E90, 0x8F66], [0x65B0, 0x80FD, 0x6E90, 0x6C7D, 0x8F66], [0x667A, 0x80FD, 0x6C7D, 0x8F66], [0x667A, 0x80FD, 0x9A7E, 0x9A76], [0x7535, 0x52A8, 0x8F66]]),
     ([0x65B0, 0x80FD, 0x6E90],
        [[0x65B0, 0x80FD, 0x6E90], [0x6E05, 0x6D01, 0x80FD, 0x6E90], [0x7EFF, 0x8272, 0x80FD, 0x6E90], [0x78B3, 0x4E2D, 0x548C]]),
     ([0x534A, 0x5BFC, 0x4F53],
        [[0x534A, 0x5BFC, 0x4F53], [0x82AF, 0x7247], [0x96C6, 0x6210, 0x7535, 0x8DEF]]),
     ([0x4EBA, 0x5DE5, 0x667A, 0x80FD],
        [[0x4EBA, 0x5DE5, 0x667A, 0x80FD], [0x41, 0x49], [0x673A, 0x5668, 0x4EBA], [0x667A, 0x80FD, 0x5236, 0x9020]]),
     ([0x4E91, 0x8BA1, 0x7B97],
        [[0x4E91, 0x8BA1, 0x7B97], [0x5927, 0x6570, 0x636E], [0x6570, 0x636E, 0x4E2D, 0x5FC3]]),
     ([0x8F6F, 0x4EF6],
        [[0x8F6F, 0x4EF6], [0x8BA1, 0x7B97, 0x673A], [0x4FE1, 0x606F, 0x6280, 0x672F]]),
     ([0x901A, 0x4FE1],
        [[0x901A, 0x4FE1], [0x35, 0x47], [0x7269, 0x8054, 0x7F51]]),
     ([0x4E92, 0x8054, 0x7F51],
        [[0x4E92, 0x8054, 0x7F51], [0x6570, 0x5B57, 0x7ECF, 0x6D4E], [0x7535, 0x5B50, 0x5546, 0x52A1]]),
     ([0x7535, 0x5B50],
        [[0x7535, 0x5B50], [0x6D88, 0x8D39, 0x7535, 0x5B50]]),
     ([0x79D1, 0x6280],
        [[0x79D1, 0x6280], [0x79D1, 0x521B], [0x521B, 0x65B0]]),
     ([0x521B, 0x65B0, 0x836F],
        [[0x521B, 0x65B0, 0x836F], [0x751F, 0x7269, 0x533B, 0x836F], [0x751F, 0x7269, 0x5236, 0x836F]]),
     ([0x533B, 0x7597, 0x5668, 0x68B0],
        [[0x533B, 0x7597, 0x5668, 0x68B0], [0x533B, 0x7597, 0x8BBE, 0x5907]]),
     ([0x4E2D, 0x836F],
        [[0x4E2D, 0x836F], [0x4E2D, 0x533B]]),
     ([0x533B, 0x7597, 0x670D, 0x52A1],
        [[0x533B, 0x7597, 0x670D, 0x52A1], [0x533B, 0x7597, 0x5065, 0x5EB7]]),
     ([0x533B, 0x836F],
        [[0x533B, 0x836F], [0x533B, 0x7597], [0x751F, 0x7269], [0x5065, 0x5EB7], [0x517B, 0x8001]]),
     ([0x767D, 0x9152],
        [[0x767D, 0x9152], [0x9152]]),
     ([0x98DF, 0x54C1, 0x996E, 0x6599],
        [[0x98DF, 0x54C1], [0x996E, 0x6599], [0x4E73, 0x4E1A], [0x8C03, 0x5473, 0x54C1]]),
     ([0x5BB6, 0x7535],
        [[0x5BB6, 0x7535], [0x5BB6, 0x5C45]]),
     ([0x6C7D, 0x8F66],
        [[0x6C7D, 0x8F66], [0x6574, 0x8F66]]),
     ([0x96F6, 0x552E],
        [[0x96F6, 0x552E], [0x5546, 0x8D38], [0x7535, 0x5546]]),
     ([0x65C5, 0x6E38],
        [[0x65C5, 0x6E38], [0x9152, 0x5E97], [0x9910, 0x996E], [0x514D, 0x7A0E]]),
     ([0x54C1, 0x724C, 0x6D88, 0x8D39],
        [[0x54C1, 0x724C], [0x5962, 0x4F88, 0x54C1], [0x7EBA, 0x7EC7, 0x670D, 0x88C5]]),
     ([0x6D88, 0x8D39],
        [[0x6D88, 0x8D39], [0x5185, 0x9700]]),
     ([0x94F6, 0x884C],
        [[0x94F6, 0x884C]]),
     ([0x8BC1, 0x5238],
        [[0x8BC1, 0x5238], [0x5238, 0x5546], [0x975E, 0x94F6]]),
     ([0x4FDD, 0x9669],
        [[0x4FDD, 0x9669]]),
     ([0x5730, 0x4EA7],
        [[0x5730, 0x4EA7], [0x623F, 0x5730, 0x4EA7], [0x57FA, 0x5EFA]]),
     ([0x91D1, 0x878D],
        [[0x91D1, 0x878D]]),
     ([0x9AD8, 0x7AEF, 0x5236, 0x9020],
        [[0x9AD8, 0x7AEF, 0x5236, 0x9020], [0x5148, 0x8FDB, 0x5236, 0x9020], [0x88C5, 0x5907, 0x5236, 0x9020]]),
     ([0x673A, 0x68B0],
        [[0x673A, 0x68B0], [0x5DE5, 0x7A0B, 0x673A, 0x68B0]]),
     ([0x5316, 0x5DE5],
        [[0x5316, 0x5DE5], [0x6750, 0x6599], [0x65B0, 0x6750, 0x6599], [0x7A00, 0x571F]]),
     ([0x94A2, 0x94C1],
        [[0x94A2, 0x94C1], [0x6709, 0x8272], [0x7164, 0x70AD]]),
     ([0x5236, 0x9020],
        [[0x5236, 0x9020], [0x5DE5, 0x4E1A]]),
     ([0x822A, 0x7A7A, 0x822A, 0x5929],
        [[0x822A, 0x7A7A], [0x822A, 0x5929], [0x5546, 0x4E1A, 0x822A, 0x5929], [0x536B, 0x661F]]),
     ([0x519B, 0x5DE5, 0x88C5, 0x5907],
        [[0x519B, 0x5DE5, 0x88C5, 0x5907], [0x56FD, 0x9632, 0x88C5, 0x5907]]),
     ([0x8239, 0x8236],
        [[0x8239, 0x8236], [0x6D77, 0x6D0B], [0x6D77, 0x5DE5]]),
     ([0x519B, 0x5DE5],
        [[0x519B, 0x5DE5], [0x56FD, 0x9632]]),
     ([0x517B, 0x6B96],
        [[0x517B, 0x6B96], [0x755C, 0x7267], [0x732A], [0x9E21]]),
     ([0x79CD, 0x690D],
        [[0x79CD, 0x690D], [0x79CD, 0x4E1A], [0x7CAE, 0x98DF]]),
     ([0x519C, 0x4E1A],
        [[0x519C, 0x4E1A], [0x519C, 0x4EA7, 0x54C1]]),
     ([0x7164, 0x70AD],
        [[0x7164, 0x70AD]]),
     ([0x77F3, 0x6CB9],
        [[0x77F3, 0x6CB9], [0x6CB9, 0x6C14], [0x5929, 0x7136, 0x6C14]]),
     ([0x7535, 0x529B],
        [[0x7535, 0x529B], [0x516C, 0x7528, 0x4E8B, 0x4E1A], [0x6C34, 0x7535], [0x706B, 0x7535], [0x6838, 0x7535]]),
     ([0x8D44, 0x6E90],
        [[0x8D44, 0x6E90], [0x80FD, 0x6E90]]),
     ([0x6E2F, 0x80A1],
        [[0x6E2F, 0x80A1], [0x6052, 0x751F], [0x48, 0x80A1]]),
     ([0x7F8E, 0x80A1],
        [[0x7F8E, 0x80A1], [0x7EB3, 0x65AF, 0x8FBE, 0x514B], [0x6807, 0x666E]]),
     ([0x51, 0x44, 0x49, 0x49],
        [[0x51, 0x44, 0x49, 0x49], [0x6D77, 0x5916], [0x5168, 0x7403]]),
     ([0x7EA2, 0x5229],
        [[0x7EA2, 0x5229], [0x9AD8, 0x80A1, 0x606F], [0x5206, 0x7EA2]]),
     ([0x4EF7, 0x503C],
        [[0x4EF7, 0x503C], [0x84DD, 0x7B79], [0x9F99, 0x5934]]),
     ([0x6210, 0x957F],
        [[0x6210, 0x957F]]),
     ([0x91CF, 0x5316],
        [[0x91CF, 0x5316]]),
     ([0x6307, 0x6570],
        [[0x6307, 0x6570], [0x45, 0x54, 0x46], [0x4C, 0x4F, 0x46]]),
     ([0x503A, 0x5238],
        [[0x503A, 0x5238], [0x7EAF, 0x503A], [0x4FE1, 0x7528, 0x503A], [0x5229, 0x7387, 0x503A], [0x53EF, 0x8F6C, 0x503A]]),
     ([0x8D27, 0x5E01],
        [[0x8D27, 0x5E01], [0x73B0, 0x91D1]])
    ]"

text \<open>The label returned at line 533.\<close>

definition default_sector :: ustring where
  "default_sector = [0x7EFC, 0x5408]"

text \<open>The inner loop (lines 529-531) and the outer loop (line 528) of the scan.\<close>

fun keyword_in_name :: "ustring list \<Rightarrow> ustring \<Rightarrow> bool" where
  "keyword_in_name [] name = False"
| "keyword_in_name (kw # keywords) name =
     (if contains kw name then True else keyword_in_name keywords name)"

fun scan_sectors :: "(ustring \<times> ustring list) list \<Rightarrow> ustring \<Rightarrow> ustring option" where
  "scan_sectors [] name = None"
| "scan_sectors ((sector, keywords) # rest) name =
     (if keyword_in_name keywords name then Some sector else scan_sectors rest name)"

text \<open>
  \<open>get_fund_sector\<close> (lines 443-533), given what \<open>await self.get_fund_detail(code)\<close>
  returned: nothing, or the dictionary of the fund, of which the name is read.
\<close>

record detail =
  detail_code :: string
  detail_name :: ustring

definition get_fund_sector :: "detail option \<Rightarrow> ustring" where
  "get_fund_sector detail =
     (case detail of
        None \<Rightarrow> default_sector
      | Some d \<Rightarrow>
          (case scan_sectors sector_keywords (detail_name d) of
             Some sector \<Rightarrow> sector
           | None \<Rightarrow> default_sector))"

text \<open>Strings of the example in the specification, by their code points.\<close>

definition semiconductor_etf_name :: ustring where
  "semiconductor_etf_name = [0x67D0, 0x534A, 0x5BFC, 0x4F53, 0x82AF, 0x7247, 0x45, 0x54, 0x46]"

definition semiconductor :: ustring where
  "semiconductor = [0x534A, 0x5BFC, 0x4F53]"

definition technology :: ustring where
  "technology = [0x79D1, 0x6280]"

definition index_sector :: ustring where
  "index_sector = [0x6307, 0x6570]"

definition keyword_ETF :: ustring where
  "keyword_ETF = [0x45, 0x54, 0x46]"

section \<open>eastmoney_client.py: notions that the statements use\<close>

text \<open>
  What a reply to the estimate request amounts to: the quote built from it, or nothing
  when the request raised, the status is not 200, the text does not match, it does not
  decode, or a number in it does not convert.
\<close>

definition fetched :: "'f estimate_text reply \<Rightarrow> string \<Rightarrow> 'f quote option" where
  "fetched response code =
     (case response of
        Reply status_code (Jsonp data) \<Rightarrow>
          if status_code = 200
          then (case make_quote code data of Inl e \<Rightarrow> None | Inr result \<Rightarrow> Some result)
          else None
      | _ \<Rightarrow> None)"

text \<open>
  The outcome of one task of the batch, from what its first half gave and the reply to its
  request; \<open>cache_size\<close> is the size of the cache.
\<close>

definition task_outcome ::
  "(string \<Rightarrow> 'f estimate_text reply) \<Rightarrow> nat \<Rightarrow> string \<times> 'f quote option started
     \<Rightarrow> exn + 'f quote option" where
  "task_outcome net cache_size task =
     (case task of
        (c, Returned r) \<Rightarrow> r
      | (c, Awaiting) \<Rightarrow> Inr (if 0 < cache_size then fetched (net c) c else None))"

text \<open>Concrete values on which the statements about the client are run.\<close>

definition payload_of :: "string \<Rightarrow> int estimate_json" where
  "payload_of c =
     \<lparr>fundcode = Some c, name_key = Some [0x41], dwjz = JNum 10, jzrq = Some ''2024-03-04'',
      gsz = JNum 11, gszzl = JNum 1, gztime = Some ''2024-03-05 10:00''\<rparr>"

definition quote_of :: "string \<Rightarrow> int quote" where
  "quote_of c =
     \<lparr>q_code = c, q_name = [0x41], nav = Some 10, nav_date = ''2024-03-04'',
      estimate_nav = Some 11, estimate_change = Some 1, estimate_time = ''2024-03-05 10:00''\<rparr>"

definition net_up :: "string \<Rightarrow> int estimate_text reply" where
  "net_up c = Reply 200 (Jsonp (payload_of c))"

definition net_down :: "string \<Rightarrow> int estimate_text reply" where
  "net_down c = Raised"

definition net_B_fails :: "string \<Rightarrow> int estimate_text reply" where
  "net_B_fails c = (if c = ''B'' then Reply 500 NoJsonp else net_up c)"

definition history_down :: "request \<Rightarrow> int history_body reply" where
  "history_down r = Raised"

definition client0 :: "int client" where
  "client0 = EastMoneyClient 10 3600"

section \<open>Properties of the stock quotes\<close>

lemma build_secids_map: "build_secids acc codes = acc @ map secid codes"
  by (induction codes arbitrary: acc) simp_all

lemma startswith_659:
  "startswith code [''6'', ''5'', ''9'']
     \<longleftrightarrow> (\<exists>c rest. code = c # rest \<and> (c = CHR ''6'' \<or> c = CHR ''5'' \<or> c = CHR ''9''))"
  by (cases code) (auto simp: startswith_def)

text \<open>
  C3. The identifier that \<open>get_stock_quotes\<close> builds for a code is \<open>"1." + code\<close> exactly
  when the first character of the code is one of 6, 5, 9, and \<open>"0." + code\<close> otherwise:
  for a list of codes that is not empty, the one request it sends carries these
  identifiers, one per code in the order of the list, joined by commas. 600519 gives
  1.600519, 000858 gives 0.000858 and 510300 gives 1.510300.
\<close>

theorem get_stock_quotes_exchange_prefix:
  "(stock_codes \<noteq> [] \<longrightarrow>
      sent (snd (get_stock_quotes net stock_codes s))
        = sent s @ [QuotesReq (join_comma (map secid stock_codes))])
   \<and> secid code =
       (if \<exists>c rest. code = c # rest \<and> (c = CHR ''6'' \<or> c = CHR ''5'' \<or> c = CHR ''9'')
        then ''1.'' @ code else ''0.'' @ code)
   \<and> build_secids [] stock_codes = map secid stock_codes
   \<and> secid ''600519'' = ''1.600519''
   \<and> secid ''000858'' = ''0.000858''
   \<and> secid ''510300'' = ''1.510300''"
proof -
  have "stock_codes \<noteq> [] \<longrightarrow>
      sent (snd (get_stock_quotes net stock_codes s))
        = sent s @ [QuotesReq (join_comma (map secid stock_codes))]"
    by (auto simp: get_stock_quotes_def Let_def build_secids_map
        split: reply.splits quotes_body.splits sum.splits)
  moreover have "secid code =
     (if \<exists>c rest. code = c # rest \<and> (c = CHR ''6'' \<or> c = CHR ''5'' \<or> c = CHR ''9'')
      then ''1.'' @ code else ''0.'' @ code)"
    unfolding secid_def startswith_659 by simp
  moreover have "build_secids [] stock_codes = map secid stock_codes"
    by (simp add: build_secids_map)
  moreover have "secid ''600519'' = ''1.600519''"
    by (simp add: secid_def startswith_def)
  moreover have "secid ''000858'' = ''0.000858''"
    by (simp add: secid_def startswith_def)
  moreover have "secid ''510300'' = ''1.510300''"
    by (simp add: secid_def startswith_def)
  ultimately show ?thesis by blast
qed

theorem get_stock_quotes_exchange_prefix_witness:
  "sent (snd (get_stock_quotes (\<lambda>p. Reply 200 (QuotesDiff [\<lparr>f12 = ''600519'', f3 = JNum (1::int)\<rparr>]))
                [''600519'', ''000858'', ''510300'', ''900901'', ''''] (EastMoneyClient 10 3600)))
     = [QuotesReq ''1.600519,0.000858,1.510300,1.900901,0.'']
   \<and> sent (snd (get_stock_quotes (\<lambda>p. Raised :: int quotes_body reply)
                [''300750''] (EastMoneyClient 10 3600)))
     = [QuotesReq ''0.300750'']"
proof -
  have ne: "[''600519'', ''000858'', ''510300'', ''900901'', ''''] \<noteq> ([] :: string list)"
    "[''300750''] \<noteq> ([] :: string list)"
    by simp_all
  have ids: "join_comma (map secid [''600519'', ''000858'', ''510300'', ''900901'', ''''])
      = ''1.600519,0.000858,1.510300,1.900901,0.''"
    "join_comma (map secid [''300750'']) = ''0.300750''"
    by (simp_all add: secid_def startswith_def)
  have log: "sent (EastMoneyClient 10 3600 :: int client) = []"
    by (simp add: EastMoneyClient_def)
  show ?thesis
    using get_stock_quotes_exchange_prefix
            [of "[''600519'', ''000858'', ''510300'', ''900901'', '''']"
                "\<lambda>p. Reply 200 (QuotesDiff [\<lparr>f12 = ''600519'', f3 = JNum (1::int)\<rparr>])"
                "EastMoneyClient 10 3600"]
          get_stock_quotes_exchange_prefix
            [of "[''300750'']" "\<lambda>p. Raised :: int quotes_body reply" "EastMoneyClient 10 3600"]
          ne
    unfolding ids log by simp
qed

text \<open>
  C9. For the empty list of codes the result is the empty dictionary and the client is left
  as it was: no request is issued, whatever the network would answer.
\<close>

theorem get_stock_quotes_empty:
  "get_stock_quotes net [] s = (Map.empty, s)"
  by (simp add: get_stock_quotes_def)

theorem get_stock_quotes_empty_witness:
  "get_stock_quotes (\<lambda>p. Reply 200 (QuotesDiff [\<lparr>f12 = ''600519'', f3 = JNum (1::int)\<rparr>])) []
     (EastMoneyClient 10 3600) = (Map.empty, EastMoneyClient 10 3600)"
  using get_stock_quotes_empty
    [of "\<lambda>p. Reply 200 (QuotesDiff [\<lparr>f12 = ''600519'', f3 = JNum (1::int)\<rparr>])"
        "EastMoneyClient 10 3600"]
  by simp

section \<open>Properties of the intraday store\<close>

lemma date_lt_irrefl: "\<not> date_lt d d"
  by (simp add: date_lt_def)

lemma time_not_lt: "(\<not> time_lt a b) = time_le b a"
  by (auto simp: time_lt_def time_le_def intro: pytime.equality)

lemma should_clear_data_spec: "should_clear_data now data = stale_by_spec now (last_update data)"
proof (cases "last_update data")
  case (LuStamp lu)
  have "datetime_ge now (combine (date now) CLEAR_TIME) = time_le CLEAR_TIME (time now)"
    by (simp add: datetime_ge_def datetime_lt_def combine_def date_lt_irrefl time_not_lt)
  moreover have "datetime_lt lu (combine (date now) CLEAR_TIME)
      = (date_lt (date lu) (date now) \<or> (date lu = date now \<and> time_lt (time lu) CLEAR_TIME))"
    by (simp add: datetime_lt_def combine_def)
  ultimately show ?thesis
    using LuStamp by (auto simp: should_clear_data_def stale_by_spec_def Let_def)
qed (simp_all add: should_clear_data_def stale_by_spec_def)

lemma read_intraday_data_doc:
  "map_of (files dir) (get_today_file now) = Some (Doc a) \<Longrightarrow>
   read_intraday_data now dir = (if stale_by_spec now (last_update a) then fresh_data now else a)"
  by (simp add: read_intraday_data_def should_clear_data_spec)


lemma intraday_batch_loop_eq:
  "intraday_batch_loop fd codes result =
     (\<lambda>c. if c \<in> set codes then Some (lookup_samples fd c) else result c)"
  by (induction codes arbitrary: result) (auto simp: fun_eq_iff)

lemma write_intraday_data_fst: "fst (write_intraday_data now data dir) = writable dir"
  by (simp add: write_intraday_data_def)

lemma write_intraday_data_file:
  "writable dir \<Longrightarrow>
   map_of (files (snd (write_intraday_data now data dir))) (get_today_file now) = Some (Doc data)"
  by (simp add: write_intraday_data_def update_conv')

lemma is_trading_time_boundaries:
  "\<not> is_trading_time (at_time d 9 29 59 us)"
  "is_trading_time (at_time d 9 30 0 us)"
  "is_trading_time (at_time d 15 0 0 0)"
  "\<not> is_trading_time (at_time d 15 0 1 us)"
  by (auto simp: is_trading_time_def at_time_def MARKET_OPEN_def MARKET_CLOSE_def mk_time_def
      time_le_def time_lt_def)

lemma delete_filter: "AList.delete k al = filter (\<lambda>(k', v). k' \<noteq> k) al"
  by (induction al) auto

lemma cleanup_loop_eq:
  assumes "writable dir"
  shows "cleanup_loop strptime today keep_days stems deleted dir =
     (deleted + length (filter (is_old strptime today keep_days) stems),
      dir\<lparr>files := filter (\<lambda>(s, c). s \<notin> set (filter (is_old strptime today keep_days) stems))
                      (files dir)\<rparr>)"
  using assms
proof (induction stems arbitrary: deleted dir)
  case Nil
  then show ?case by simp
next
  case (Cons s stems)
  show ?case
  proof (cases "is_old strptime today keep_days s")
    case True
    then obtain d where d: "strptime s = Some d" "keep_days < days_between today d"
      by (auto simp: is_old_def split: option.splits)
    let ?dir' = "dir\<lparr>files := AList.delete s (files dir)\<rparr>"
    have w: "writable ?dir'"
      using Cons.prems by simp
    have "filter (\<lambda>(s', c). s' \<notin> set (filter (is_old strptime today keep_days) stems))
              (filter (\<lambda>(k', v). k' \<noteq> s) (files dir))
          = filter (\<lambda>(s', c). s' \<noteq> s \<and> s' \<notin> set (filter (is_old strptime today keep_days) stems))
              (files dir)"
      by (induction "files dir") (auto simp: filter_filter intro: filter_cong)
    then show ?thesis
      using Cons.IH [OF w] Cons.prems d True
      by (simp add: Let_def unlink_def delete_filter)
  next
    case False
    then show ?thesis
      using Cons by (auto simp: Let_def is_old_def split: option.splits)
  qed
qed

lemma cleanup_loop_readonly:
  assumes "\<not> writable dir"
  shows "cleanup_loop strptime today keep_days stems deleted dir = (deleted, dir)"
  using assms
  by (induction stems arbitrary: deleted) (simp_all add: Let_def unlink_def split: option.splits)

lemma cleanup_old_files_eq:
  assumes "writable dir"
  shows "cleanup_old_files strptime now keep_days dir =
     (length (filter (\<lambda>(s, c). is_old strptime (date now) keep_days s) (files dir)),
      dir\<lparr>files := filter (\<lambda>(s, c). \<not> is_old strptime (date now) keep_days s) (files dir)\<rparr>)"
proof -
  let ?old = "is_old strptime (date now) keep_days"
  have 1: "length (filter ?old (map fst (files dir)))
         = length (filter (\<lambda>(s, c). ?old s) (files dir))"
    by (induction "files dir") (auto simp: filter_map comp_def case_prod_unfold)
  have 2: "filter (\<lambda>(s, c). s \<notin> set (filter ?old (map fst (files dir)))) (files dir)
         = filter (\<lambda>(s, c). \<not> ?old s) (files dir)"
    by (rule filter_cong) force+
  show ?thesis
    unfolding cleanup_old_files_def cleanup_loop_eq [OF assms] using 1 2 by simp
qed

lemmas intraday_eval =
  at_time_def day_0305_def day_0304_def dir_with_def empty_dir_def get_today_file_def
  strftime_ymd_def four_digits_def two_digits_def digit_def

text \<open>
  C1, as amended. \<open>save_fund_change\<close> and \<open>save_funds_changes_batch\<close> report success exactly
  when the time of day lies in the window from 09:30 to 15:00, both ends included, and the
  file of the day could be written. Outside the window they report failure and leave the
  directory as it was. 09:29:59 is outside, 09:30:00 is inside, 15:00:00 sharp is inside,
  15:00:01 is outside.
\<close>

theorem save_succeeds_iff_window_and_written:
  "fst (save_fund_change now code chg ts dir) = (is_trading_time now \<and> writable dir)
   \<and> fst (save_funds_changes_batch now changes dir) = (is_trading_time now \<and> writable dir)
   \<and> (\<not> is_trading_time now \<longrightarrow>
        save_fund_change now code chg ts dir = (False, dir)
        \<and> save_funds_changes_batch now changes dir = (False, dir))
   \<and> \<not> is_trading_time (at_time d 9 29 59 us)
   \<and> is_trading_time (at_time d 9 30 0 us)
   \<and> is_trading_time (at_time d 15 0 0 0)
   \<and> \<not> is_trading_time (at_time d 15 0 1 us)"
proof -
  have "fst (save_fund_change now code chg ts dir) = (is_trading_time now \<and> writable dir)"
    by (simp add: save_fund_change_def Let_def write_intraday_data_fst)
  moreover have "fst (save_funds_changes_batch now changes dir)
      = (is_trading_time now \<and> writable dir)"
    by (simp add: save_funds_changes_batch_def Let_def write_intraday_data_fst)
  moreover have "\<not> is_trading_time now \<longrightarrow>
        save_fund_change now code chg ts dir = (False, dir)
        \<and> save_funds_changes_batch now changes dir = (False, dir)"
    by (simp add: save_fund_change_def save_funds_changes_batch_def)
  ultimately show ?thesis
    using is_trading_time_boundaries by blast
qed

theorem save_succeeds_iff_window_and_written_witness:
  "fst (save_fund_change (at_time day_0305 10 0 0 0) ''000001'' 5 None (empty_dir True))
   \<and> fst (save_funds_changes_batch (at_time day_0305 15 0 0 0) [(''000001'', Some 5)] (empty_dir True))
   \<and> save_fund_change (at_time day_0305 9 29 59 999999) ''000001'' 5 None (empty_dir True)
       = (False, empty_dir True)
   \<and> save_funds_changes_batch (at_time day_0305 15 0 1 0) [(''000001'', Some 5)] (empty_dir True)
       = (False, empty_dir True)"
proof -
  have in1: "is_trading_time (at_time day_0305 10 0 0 0)"
    by (simp add: is_trading_time_def at_time_def MARKET_OPEN_def MARKET_CLOSE_def mk_time_def
        time_le_def time_lt_def)
  have w: "writable (empty_dir True)"
    by (simp add: empty_dir_def)
  show ?thesis
    using save_succeeds_iff_window_and_written
            [of "at_time day_0305 10 0 0 0" "''000001''" 5 None "empty_dir True"]
          save_succeeds_iff_window_and_written
            [of "at_time day_0305 15 0 0 0" _ _ _ "empty_dir True" "[(''000001'', Some 5)]"]
          save_succeeds_iff_window_and_written
            [of "at_time day_0305 9 29 59 999999" "''000001''" 5 None "empty_dir True"]
          save_succeeds_iff_window_and_written
            [of "at_time day_0305 15 0 1 0" _ _ _ "empty_dir True" "[(''000001'', Some 5)]"]
          in1 w is_trading_time_boundaries [of day_0305]
    by simp
qed

text \<open>
  C1 as it was stated fails: at 10:00, inside the window, a save into a directory that
  cannot be written reports failure.
\<close>

theorem save_in_window_can_fail:
  "is_trading_time (at_time day_0305 10 0 0 0)
   \<and> \<not> fst (save_fund_change (at_time day_0305 10 0 0 0) ''000001'' 5 None (empty_dir False))
   \<and> \<not> fst (save_funds_changes_batch (at_time day_0305 10 0 0 0) [(''000001'', Some 5)]
             (empty_dir False))"
  by (simp add: save_fund_change_def save_funds_changes_batch_def Let_def
      write_intraday_data_def empty_dir_def
      is_trading_time_def at_time_def MARKET_OPEN_def MARKET_CLOSE_def mk_time_def
      time_le_def time_lt_def)



text \<open>
  C8, as amended. When the directory accepts changes, the sweep deletes exactly the files
  whose stem parses as a date strictly more than \<open>keep_days\<close> days before today, keeps
  every other file with its content (a file whose stem does not parse among them), and
  returns the number of files it deleted. When the directory does not accept changes, the
  sweep deletes nothing and returns 0. In both cases the number returned is the number of
  files that are gone. With seven days kept on 2024-03-05, the file of 2024-02-24 (ten
  days old) is to go, the file of 2024-03-02 (three days old) and a file named \<open>notes\<close>
  are to stay.
\<close>

theorem cleanup_old_files_exact:
  "(writable dir \<longrightarrow>
      cleanup_old_files strptime now keep_days dir =
        (length (filter (\<lambda>(s, c). is_old strptime (date now) keep_days s) (files dir)),
         dir\<lparr>files := filter (\<lambda>(s, c). \<not> is_old strptime (date now) keep_days s) (files dir)\<rparr>))
   \<and> (\<not> writable dir \<longrightarrow> cleanup_old_files strptime now keep_days dir = (0, dir))
   \<and> fst (cleanup_old_files strptime now keep_days dir)
       = length (files dir) - length (files (snd (cleanup_old_files strptime now keep_days dir)))
   \<and> (strptime stem = None \<longrightarrow> \<not> is_old strptime (date now) keep_days stem)
   \<and> is_old strptime_ymd day_0305 7 ''2024-02-24''
   \<and> \<not> is_old strptime_ymd day_0305 7 ''2024-03-02''
   \<and> \<not> is_old strptime_ymd day_0305 7 ''notes''"
proof -
  have len: "length (filter (\<lambda>(s, c). is_old strptime (date now) keep_days s) (files dir))
      = length (files dir)
        - length (filter (\<lambda>(s, c). \<not> is_old strptime (date now) keep_days s) (files dir))"
    using sum_length_filter_compl [of "\<lambda>x. is_old strptime (date now) keep_days (fst x)" "files dir"]
    by (simp add: case_prod_unfold)
  have ro: "\<not> writable dir \<longrightarrow> cleanup_old_files strptime now keep_days dir = (0, dir)"
    by (simp add: cleanup_old_files_def cleanup_loop_readonly)
  have count: "fst (cleanup_old_files strptime now keep_days dir)
       = length (files dir) - length (files (snd (cleanup_old_files strptime now keep_days dir)))"
  proof (cases "writable dir")
    case True
    then show ?thesis by (simp add: cleanup_old_files_eq len)
  next
    case False
    then show ?thesis using ro by simp
  qed
  have "is_old strptime_ymd day_0305 7 ''2024-02-24''"
    by (simp add: is_old_def strptime_ymd_def is_digit_def is_nonzero_digit_def number_def
        days_in_month_def is_leap_def days_between_def toordinal_def days_before_year_def
        days_before_month_def day_0305_def)
  moreover have "\<not> is_old strptime_ymd day_0305 7 ''2024-03-02''"
    by (simp add: is_old_def strptime_ymd_def is_digit_def is_nonzero_digit_def number_def
        days_in_month_def is_leap_def days_between_def toordinal_def days_before_year_def
        days_before_month_def day_0305_def)
  moreover have "\<not> is_old strptime_ymd day_0305 7 ''notes''"
    by (simp add: is_old_def strptime_ymd_def)
  moreover have "strptime stem = None \<longrightarrow> \<not> is_old strptime (date now) keep_days stem"
    by (simp add: is_old_def)
  ultimately show ?thesis
    using ro count cleanup_old_files_eq [of dir strptime now keep_days] by blast
qed

theorem cleanup_old_files_exact_witness:
  "cleanup_old_files strptime_ymd (at_time day_0305 12 0 0 0) 7 (sweep_dir True) =
     (1, \<lparr>files = [(''2024-03-02'', NotJson), (''notes'', NotJson)], writable = True\<rparr>)
   \<and> cleanup_old_files strptime_ymd (at_time day_0305 12 0 0 0) 7 (sweep_dir False)
       = (0, sweep_dir False)"
proof -
  have d: "date (at_time day_0305 12 0 0 0) = day_0305"
    by (simp add: at_time_def)
  have A: "cleanup_old_files strptime_ymd (at_time day_0305 12 0 0 0) 7 (sweep_dir True) =
     (1, \<lparr>files = [(''2024-03-02'', NotJson), (''notes'', NotJson)], writable = True\<rparr>)"
    using cleanup_old_files_exact
            [of "sweep_dir True" strptime_ymd "at_time day_0305 12 0 0 0" 7 "''notes''"]
    by (simp add: d sweep_dir_def)
  have B: "cleanup_old_files strptime_ymd (at_time day_0305 12 0 0 0) 7 (sweep_dir False)
       = (0, sweep_dir False)"
    using cleanup_old_files_exact
            [of "sweep_dir False" strptime_ymd "at_time day_0305 12 0 0 0" 7 "''notes''"]
    by (simp add: sweep_dir_def)
  from A B show ?thesis by blast
qed

text \<open>
  C8 as it was stated fails: in a directory that does not accept changes the file of
  2024-02-24, ten days old, is not deleted.
\<close>

theorem cleanup_old_files_keeps_old_file:
  "is_old strptime_ymd (date (at_time day_0305 12 0 0 0)) 7 ''2024-02-24''
   \<and> (''2024-02-24'', NotJson) \<in> set (files (sweep_dir False))
   \<and> (''2024-02-24'', NotJson)
       \<in> set (files (snd (cleanup_old_files strptime_ymd (at_time day_0305 12 0 0 0) 7
                              (sweep_dir False))))"
  by (simp add: cleanup_old_files_def unlink_def sweep_dir_def at_time_def
      is_old_def strptime_ymd_def is_digit_def is_nonzero_digit_def number_def
      days_in_month_def is_leap_def days_between_def toordinal_def days_before_year_def
      days_before_month_def day_0305_def)

text \<open>
  C10. A document without a last update is not stale at any time, so a read that finds it
  in the file of the day returns its stored samples. The document that
  \<open>clear_intraday_data\<close> writes has no last update and is therefore not stale at any
  time; a successful save is what puts a last update into the file of the day.
\<close>

theorem unstamped_artifact_never_stale:
  "(last_update a = LuMissing \<longrightarrow> \<not> should_clear_data now a)
   \<and> (last_update a = LuMissing \<and> map_of (files dir) (get_today_file now) = Some (Doc a) \<longrightarrow>
        get_fund_intraday now code dir = (lookup_samples (funds_or_empty a) code, dir)
        \<and> get_funds_intraday_batch now codes dir =
            ((\<lambda>c. if c \<in> set codes then Some (lookup_samples (funds_or_empty a) c) else None),
             dir))
   \<and> (writable dir \<longrightarrow>
        fst (clear_intraday_data t dir)
        \<and> map_of (files (snd (clear_intraday_data t dir))) (get_today_file t)
            = Some (Doc (fresh_data t)))
   \<and> last_update (fresh_data t :: 'f artifact) = LuMissing
   \<and> \<not> should_clear_data now (fresh_data t :: 'f artifact)
   \<and> (is_trading_time t \<and> writable dir \<longrightarrow>
        (\<exists>a'. map_of (files (snd (save_fund_change t code chg ts dir))) (get_today_file t)
                = Some (Doc a')
              \<and> last_update a' = LuStamp t))"
proof -
  have 1: "last_update a = LuMissing \<longrightarrow> \<not> should_clear_data now a"
    by (simp add: should_clear_data_def)
  have 2: "last_update a = LuMissing \<and> map_of (files dir) (get_today_file now) = Some (Doc a) \<longrightarrow>
        get_fund_intraday now code dir = (lookup_samples (funds_or_empty a) code, dir)
        \<and> get_funds_intraday_batch now codes dir =
            ((\<lambda>c. if c \<in> set codes then Some (lookup_samples (funds_or_empty a) c) else None),
             dir)"
    by (simp add: get_fund_intraday_def get_funds_intraday_batch_def read_intraday_data_doc
        intraday_batch_loop_eq stale_by_spec_def)
  have 3: "writable dir \<longrightarrow>
        fst (clear_intraday_data t dir)
        \<and> map_of (files (snd (clear_intraday_data t dir))) (get_today_file t)
            = Some (Doc (fresh_data t))"
    by (simp add: clear_intraday_data_def write_intraday_data_fst write_intraday_data_file)
  have 4: "last_update (fresh_data t :: 'f artifact) = LuMissing"
    by (simp add: fresh_data_def)
  have 5: "\<not> should_clear_data now (fresh_data t :: 'f artifact)"
    by (simp add: should_clear_data_def fresh_data_def)
  have 6: "is_trading_time t \<and> writable dir \<longrightarrow>
        (\<exists>a'. map_of (files (snd (save_fund_change t code chg ts dir))) (get_today_file t)
                = Some (Doc a')
              \<and> last_update a' = LuStamp t)"
    by (simp add: save_fund_change_def Let_def write_intraday_data_file)
  from 1 2 3 4 5 6 show ?thesis by blast
qed

theorem unstamped_artifact_never_stale_witness:
  "\<not> should_clear_data (at_time day_0305 10 0 0 0) doc_unstamped
   \<and> get_fund_intraday (at_time day_0305 10 0 0 0) ''000001'' (dir_with doc_unstamped)
       = ([\<lparr>sample_time = ''10:00:00'', change = 3\<rparr>], dir_with doc_unstamped)
   \<and> fst (clear_intraday_data (at_time day_0305 8 0 0 0) (dir_with doc_0850))
   \<and> map_of (files (snd (clear_intraday_data (at_time day_0305 8 0 0 0) (dir_with doc_0850))))
       ''2024-03-05'' = Some (Doc (fresh_data (at_time day_0305 8 0 0 0)))
   \<and> \<not> should_clear_data (at_time day_0305 10 0 0 0)
         (fresh_data (at_time day_0305 8 0 0 0) :: int artifact)"
proof -
  have lu: "last_update doc_unstamped = LuMissing"
    by (simp add: doc_unstamped_def)
  have f: "map_of (files (dir_with doc_unstamped)) (get_today_file (at_time day_0305 10 0 0 0))
      = Some (Doc doc_unstamped)"
    by (simp add: intraday_eval)
  have w: "writable (dir_with doc_0850)"
    by (simp add: dir_with_def)
  have n: "get_today_file (at_time day_0305 8 0 0 0) = ''2024-03-05''"
    by (simp add: intraday_eval)
  have l: "lookup_samples (funds_or_empty doc_unstamped) ''000001''
      = [\<lparr>sample_time = ''10:00:00'', change = 3\<rparr>]"
    by (simp add: lookup_samples_def funds_or_empty_def doc_unstamped_def)
  have A: "\<not> should_clear_data (at_time day_0305 10 0 0 0) doc_unstamped
      \<and> get_fund_intraday (at_time day_0305 10 0 0 0) ''000001'' (dir_with doc_unstamped)
          = ([\<lparr>sample_time = ''10:00:00'', change = 3\<rparr>], dir_with doc_unstamped)"
    using unstamped_artifact_never_stale
            [of doc_unstamped "at_time day_0305 10 0 0 0" "dir_with doc_unstamped"
                "''000001''" "[]" "at_time day_0305 8 0 0 0" 5 None]
          lu f l
    by (elim conjE) (simp only:, blast)
  have B: "fst (clear_intraday_data (at_time day_0305 8 0 0 0) (dir_with doc_0850))
      \<and> map_of (files (snd (clear_intraday_data (at_time day_0305 8 0 0 0) (dir_with doc_0850))))
            ''2024-03-05'' = Some (Doc (fresh_data (at_time day_0305 8 0 0 0)))
      \<and> \<not> should_clear_data (at_time day_0305 10 0 0 0)
            (fresh_data (at_time day_0305 8 0 0 0) :: int artifact)"
    using unstamped_artifact_never_stale
            [of doc_unstamped "at_time day_0305 10 0 0 0" "dir_with doc_0850"
                "''000001''" "[]" "at_time day_0305 8 0 0 0" 5 None]
          w
    unfolding n by blast
  from A B show ?thesis by blast
qed

section \<open>Properties of the caches\<close>

lemma cache_expire_params [simp]:
  "maxsize (cache_expire c now) = maxsize c" "ttl (cache_expire c now) = ttl c"
  by (simp_all add: cache_expire_def Let_def)

lemma cache_evict_params [simp]:
  "maxsize (cache_evict n c) = maxsize c" "ttl (cache_evict n c) = ttl c"
  by (induction n arbitrary: c; simp split: list.splits)+

lemma cache_setitem_result:
  assumes "cache_setitem c now key val = (r, c')"
  shows "r = (if 0 < maxsize c then None else Some ValueError)
         \<and> maxsize c' = maxsize c \<and> ttl c' = ttl c
         \<and> (0 < maxsize c \<longrightarrow> entries c' key = Some (val, now + ttl c))"
  using assms by (auto simp: cache_setitem_def Let_def split: if_splits)


lemma cache_contains_iff:
  "cache_contains c now key = (\<exists>v expires. entries c key = Some (v, expires) \<and> now < expires)"
  by (auto simp: cache_contains_def split: option.splits)

section \<open>Properties of the estimates\<close>



lemma estimate_begin_cached:
  assumes "cache_contains (realtime_cache s) now (estimate_key code)"
  shows "\<exists>r s'. estimate_begin now at_read code s = (Returned r, s')"
  using assms
  by (auto simp: estimate_begin_def split: prod.splits sum.splits)

lemma estimate_begin_miss:
  assumes "\<not> cache_contains (realtime_cache s) now (estimate_key code)"
  shows "estimate_begin now at_read code s = (Awaiting, s\<lparr>sent := sent s @ [EstimateReq code]\<rparr>)"
  using assms by (simp add: estimate_begin_def)

lemma estimate_resume_result:
  "fst (estimate_resume response finished code s)
     = (if 0 < maxsize (realtime_cache s) then fetched response code else None)"
  by (auto simp: estimate_resume_def fetched_def dest!: cache_setitem_result
      split: reply.splits estimate_text.splits sum.splits prod.splits option.splits if_splits)

lemma estimate_resume_keeps:
  "maxsize (realtime_cache (snd (estimate_resume response finished code s)))
     = maxsize (realtime_cache s)
   \<and> sent (snd (estimate_resume response finished code s)) = sent s"
  by (auto simp: estimate_resume_def dest!: cache_setitem_result
      split: reply.splits estimate_text.splits sum.splits prod.splits option.splits if_splits)





lemma get_fund_estimate_miss:
  assumes "\<not> cache_contains (realtime_cache s) now (estimate_key code)"
  shows "get_fund_estimate net now at_read finished code s =
           (case estimate_resume (net code) finished code (s\<lparr>sent := sent s @ [EstimateReq code]\<rparr>) of
              (r, s2) \<Rightarrow> (Inr r, s2))"
  by (simp add: get_fund_estimate_def estimate_begin_miss [OF assms])


lemma get_fund_estimate_miss_result:
  assumes "\<not> cache_contains (realtime_cache s) now (estimate_key code)"
  shows "fst (get_fund_estimate net now at_read finished code s)
           = Inr (if 0 < maxsize (realtime_cache s) then fetched (net code) code else None)"
  using estimate_resume_result [of "net code" finished code "s\<lparr>sent := sent s @ [EstimateReq code]\<rparr>"]
  by (simp add: get_fund_estimate_miss [OF assms] case_prod_beta)

text \<open>The first half of a task leaves the contents of the cache as they are.\<close>

lemma estimate_begin_keeps:
  "entries (realtime_cache (snd (estimate_begin now at_read code s))) = entries (realtime_cache s)
   \<and> maxsize (realtime_cache (snd (estimate_begin now at_read code s)))
       = maxsize (realtime_cache s)"
  by (auto simp: estimate_begin_def cache_getitem_def cache_contains_def Let_def
      split: option.splits prod.splits sum.splits if_splits)

lemma estimate_begin_depends:
  assumes "entries (realtime_cache s') = entries (realtime_cache s)"
  shows "fst (estimate_begin now at_read code s') = fst (estimate_begin now at_read code s)"
  using assms
  by (auto simp: estimate_begin_def cache_getitem_def cache_contains_def Let_def
      split: option.splits prod.splits sum.splits if_splits)

lemma begin_all_tasks:
  assumes "entries (realtime_cache s') = entries (realtime_cache s)"
  shows "fst (begin_all now at_read codes s')
           = map (\<lambda>c. (c, fst (estimate_begin now at_read c s))) codes
         \<and> maxsize (realtime_cache (snd (begin_all now at_read codes s')))
             = maxsize (realtime_cache s')"
  using assms
proof (induction codes arbitrary: s')
  case Nil
  then show ?case by simp
next
  case (Cons c codes)
  obtain t s1 where b: "estimate_begin now at_read c s' = (t, s1)"
    by (cases "estimate_begin now at_read c s'")
  have e: "entries (realtime_cache s1) = entries (realtime_cache s)"
    and m: "maxsize (realtime_cache s1) = maxsize (realtime_cache s')"
    using estimate_begin_keeps [of now at_read c s'] b Cons.prems by simp_all
  from Cons.IH [OF e] m
  have "fst (begin_all now at_read codes s1)
          = map (\<lambda>c. (c, fst (estimate_begin now at_read c s))) codes"
    and "maxsize (realtime_cache (snd (begin_all now at_read codes s1)))
          = maxsize (realtime_cache s')"
    by simp_all
  moreover have "t = fst (estimate_begin now at_read c s)"
    using estimate_begin_depends [OF Cons.prems, of now at_read c] b by simp
  ultimately show ?case
    using b by (simp add: case_prod_beta)
qed

text \<open>The outcome of one task, from what its first half gave and the reply to its request.\<close>

lemma resume_all_results:
  "fst (resume_all net finished tasks s) = map (task_outcome net (maxsize (realtime_cache s))) tasks"
proof (induction net finished tasks s rule: resume_all.induct)
  case (1 net finished s)
  then show ?case by simp
next
  case (2 net finished code r tasks s)
  then show ?case by (simp add: task_outcome_def case_prod_beta)
next
  case (3 net finished code tasks s)
  obtain r s1 where e: "estimate_resume (net code) finished code s = (r, s1)"
    by (cases "estimate_resume (net code) finished code s")
  have "r = (if 0 < maxsize (realtime_cache s) then fetched (net code) code else None)"
    and "maxsize (realtime_cache s1) = maxsize (realtime_cache s)"
    using estimate_resume_result [of "net code" finished code s]
      estimate_resume_keeps [of "net code" finished code s] e by simp_all
  then show ?case
    using 3 [OF e [symmetric]] e by (simp add: task_outcome_def case_prod_beta)
qed

lemma task_outcome_single:
  "task_outcome net (maxsize (realtime_cache s)) (c, fst (estimate_begin now at_read c s))
     = fst (get_fund_estimate net now at_read finished c s)"
proof (cases "cache_contains (realtime_cache s) now (estimate_key c)")
  case True
  from estimate_begin_cached [OF this, of at_read] show ?thesis
    by (auto simp: task_outcome_def get_fund_estimate_def)
next
  case False
  then show ?thesis
    by (simp add: get_fund_estimate_miss_result estimate_begin_miss task_outcome_def)
qed

lemma get_fund_estimates_batch_results:
  "fst (get_fund_estimates_batch net now at_read finished codes s)
     = valid_results (map (\<lambda>c. fst (get_fund_estimate net now at_read finished c s)) codes)"
proof -
  obtain tasks s1 where b: "begin_all now at_read codes s = (tasks, s1)"
    by (cases "begin_all now at_read codes s")
  have t: "tasks = map (\<lambda>c. (c, fst (estimate_begin now at_read c s))) codes"
    and m: "maxsize (realtime_cache s1) = maxsize (realtime_cache s)"
    using begin_all_tasks [of s s now at_read codes] b by simp_all
  have "fst (resume_all net finished tasks s1)
      = map (\<lambda>c. fst (get_fund_estimate net now at_read finished c s)) codes"
    unfolding resume_all_results m t
    by (simp add: comp_def task_outcome_single)
  then show ?thesis
    using b by (simp add: get_fund_estimates_batch_def case_prod_beta)
qed

section \<open>Properties of the sector classification\<close>

lemma contains_sublist: "contains kw name = sublist kw name"
  by (induction name) (simp_all add: sublist_Cons_right)

lemma keyword_in_name_iff:
  "keyword_in_name kws name = (\<exists>kw \<in> set kws. sublist kw name)"
  by (induction kws) (simp_all add: contains_sublist)

lemma scan_sectors_find:
  "scan_sectors table name =
     map_option fst (find (\<lambda>(sector, keywords). \<exists>kw \<in> set keywords. sublist kw name) table)"
  by (induction table) (auto simp: keyword_in_name_iff)

text \<open>
  C4. Without a profile the sector is the default label. With a profile, the sector is the
  label of the first row of the table, from the top, one of whose keywords occurs in the
  name, and the default label when no row has such a keyword. The name of the example is
  classified as semiconductor: that row is row 5, the technology row is row 12 and the
  index row, which holds the keyword ETF and matches the name as well, is row 54.
\<close>

theorem get_fund_sector_first_match:
  "get_fund_sector None = default_sector
   \<and> get_fund_sector (Some d) =
       (case find (\<lambda>(sector, keywords). \<exists>kw \<in> set keywords. sublist kw (detail_name d))
               sector_keywords of
          None \<Rightarrow> default_sector
        | Some (sector, keywords) \<Rightarrow> sector)
   \<and> get_fund_sector (Some \<lparr>detail_code = c, detail_name = semiconductor_etf_name\<rparr>)
       = semiconductor
   \<and> fst (sector_keywords ! 5) = semiconductor
   \<and> fst (sector_keywords ! 12) = technology
   \<and> fst (sector_keywords ! 54) = index_sector
   \<and> keyword_ETF \<in> set (snd (sector_keywords ! 54))
   \<and> keyword_in_name (snd (sector_keywords ! 54)) semiconductor_etf_name"
proof -
  have "get_fund_sector (Some d) =
       (case find (\<lambda>(sector, keywords). \<exists>kw \<in> set keywords. sublist kw (detail_name d))
               sector_keywords of
          None \<Rightarrow> default_sector
        | Some (sector, keywords) \<Rightarrow> sector)"
    by (simp add: get_fund_sector_def scan_sectors_find split: option.splits)
  moreover have "get_fund_sector (Some \<lparr>detail_code = c, detail_name = semiconductor_etf_name\<rparr>)
       = semiconductor"
    by (simp add: get_fund_sector_def sector_keywords_def semiconductor_etf_name_def
        semiconductor_def)
  moreover have "fst (sector_keywords ! 5) = semiconductor"
    "fst (sector_keywords ! 12) = technology"
    "fst (sector_keywords ! 54) = index_sector"
    "keyword_ETF \<in> set (snd (sector_keywords ! 54))"
    "keyword_in_name (snd (sector_keywords ! 54)) semiconductor_etf_name"
    by (simp_all add: sector_keywords_def semiconductor_def technology_def index_sector_def
        keyword_ETF_def semiconductor_etf_name_def)
  ultimately show ?thesis
    by (simp add: get_fund_sector_def)
qed

theorem get_fund_sector_first_match_witness:
  "get_fund_sector (Some \<lparr>detail_code = ''512480'', detail_name = semiconductor_etf_name\<rparr>)
     = semiconductor
   \<and> get_fund_sector (Some \<lparr>detail_code = ''510300'', detail_name = [0x33, 0x30, 0x30, 0x45, 0x54, 0x46]\<rparr>)
     = index_sector
   \<and> get_fund_sector (Some \<lparr>detail_code = ''000001'', detail_name = [0x41, 0x42]\<rparr>) = default_sector"
proof -
  have "get_fund_sector (Some \<lparr>detail_code = ''510300'', detail_name = [0x33, 0x30, 0x30, 0x45, 0x54, 0x46]\<rparr>)
     = index_sector"
    by (simp add: get_fund_sector_def sector_keywords_def index_sector_def)
  moreover have "get_fund_sector (Some \<lparr>detail_code = ''000001'', detail_name = [0x41, 0x42]\<rparr>)
     = default_sector"
    by (simp add: get_fund_sector_def sector_keywords_def)
  ultimately show ?thesis
    using get_fund_sector_first_match
            [of "\<lparr>detail_code = ''000001'', detail_name = [0x41, 0x42]\<rparr>" "''512480''"]
    by blast
qed

section \<open>Properties of the batch of estimates\<close>

text \<open>
  C5. The batch returns a plain list, so nothing is raised. The list holds, in the order of
  the codes, the quote of every code whose own call gives a quote, and nothing for a code
  whose call gives no quote or an exception. For three codes of which only the middle one
  fails, the result is the first and the third quote. A code that is not cached and whose
  request raises, or is answered with another status than 200, or with a text that does
  not match or does not decode, gives no quote.
\<close>

theorem get_fund_estimates_batch_drops_failures:
  "fst (get_fund_estimates_batch net now at_read finished codes s)
     = valid_results (map (\<lambda>c. fst (get_fund_estimate net now at_read finished c s)) codes)
   \<and> (fst (get_fund_estimate net now at_read finished a s) = Inr (Some qa)
        \<and> (fst (get_fund_estimate net now at_read finished b s) = Inr None
            \<or> fst (get_fund_estimate net now at_read finished b s) = Inl e)
        \<and> fst (get_fund_estimate net now at_read finished c s) = Inr (Some qc)
      \<longrightarrow> fst (get_fund_estimates_batch net now at_read finished [a, b, c] s) = [qa, qc])
   \<and> (\<not> cache_contains (realtime_cache s) now (estimate_key b) \<and> fetched (net b) b = None
      \<longrightarrow> fst (get_fund_estimate net now at_read finished b s) = Inr None)
   \<and> fetched Raised b = (None :: 'f quote option)
   \<and> (status_code \<noteq> 200 \<longrightarrow> fetched (Reply status_code text) b = (None :: 'f quote option))
   \<and> fetched (Reply status_code NoJsonp) b = (None :: 'f quote option)
   \<and> fetched (Reply status_code JsonpInvalid) b = (None :: 'f quote option)"
proof -
  have 1: "fst (get_fund_estimates_batch net now at_read finished codes s)
     = valid_results (map (\<lambda>c. fst (get_fund_estimate net now at_read finished c s)) codes)"
    by (rule get_fund_estimates_batch_results)
  have 2: "fst (get_fund_estimate net now at_read finished a s) = Inr (Some qa)
        \<and> (fst (get_fund_estimate net now at_read finished b s) = Inr None
            \<or> fst (get_fund_estimate net now at_read finished b s) = Inl e)
        \<and> fst (get_fund_estimate net now at_read finished c s) = Inr (Some qc)
      \<longrightarrow> fst (get_fund_estimates_batch net now at_read finished [a, b, c] s) = [qa, qc]"
    by (auto simp: get_fund_estimates_batch_results)
  have 3: "\<not> cache_contains (realtime_cache s) now (estimate_key b) \<and> fetched (net b) b = None
      \<longrightarrow> fst (get_fund_estimate net now at_read finished b s) = Inr None"
    by (simp add: get_fund_estimate_miss_result)
  have 4: "fetched Raised b = (None :: 'f quote option)"
    "status_code \<noteq> 200 \<longrightarrow> fetched (Reply status_code text) b = (None :: 'f quote option)"
    "fetched (Reply status_code NoJsonp) b = (None :: 'f quote option)"
    "fetched (Reply status_code JsonpInvalid) b = (None :: 'f quote option)"
    by (simp_all add: fetched_def split: estimate_text.splits)
  from 1 2 3 4 show ?thesis by blast
qed

lemmas client_eval =
  client0_def EastMoneyClient_def TTLCache_def net_up_def net_down_def net_B_fails_def
  payload_of_def quote_of_def get_fund_estimate_def estimate_begin_def estimate_resume_def
  estimate_key_def cache_contains_def cache_getitem_def cache_setitem_def cache_expire_def
  make_quote_def Let_def

theorem get_fund_estimates_batch_drops_failures_witness:
  "fst (get_fund_estimates_batch net_B_fails 0 0 1 [''A'', ''B'', ''C''] client0)
     = [quote_of ''A'', quote_of ''C'']"
proof -
  have a: "fst (get_fund_estimate net_B_fails 0 0 1 ''A'' client0) = Inr (Some (quote_of ''A''))"
    by (simp add: client_eval)
  have b: "fst (get_fund_estimate net_B_fails 0 0 1 ''B'' client0) = Inr None"
    by (simp add: client_eval)
  have c: "fst (get_fund_estimate net_B_fails 0 0 1 ''C'' client0) = Inr (Some (quote_of ''C''))"
    by (simp add: client_eval)
  show ?thesis
    using get_fund_estimates_batch_drops_failures
            [of net_B_fails 0 0 1 _ client0 "''A''" "quote_of ''A''" "''B''" _ "''C''" "quote_of ''C''"]
          a b c
    by blast
qed

section \<open>Properties of the cached estimate\<close>




section \<open>Properties of the history of net values\<close>

text \<open>
  C7. When the page is not cached and the fetch fails (the request raises, the status is
  not 200, the body is no JSON, the error code is not 0, the list cannot be read or a
  number in it does not convert), the result is the page with total 0, the requested page
  number and page size, and no records. Whatever the reply, a call that fetches returns a
  page and no exception.
\<close>

theorem get_fund_nav_history_failure_empty:
  assumes "\<not> cache_contains (history_cache s) now (history_key code page per_page start_date end_date)"
  shows
   "(net (HistoryReq code page per_page start_date end_date) = Raised
      \<or> (\<exists>status_code body. net (HistoryReq code page per_page start_date end_date)
            = Reply status_code body \<and> status_code \<noteq> 200)
      \<or> net (HistoryReq code page per_page start_date end_date) = Reply 200 HistoryNotJson
      \<or> (\<exists>err_code total_count lsjz_list.
            net (HistoryReq code page per_page start_date end_date)
              = Reply 200 (HistoryJson err_code total_count lsjz_list)
            \<and> (err_code \<noteq> Some 0
                \<or> (\<exists>e. lsjz_list = Inl e)
                \<or> (\<exists>items e. lsjz_list = Inr items \<and> nav_records [] items = Inl e)))
     \<longrightarrow> fst (get_fund_nav_history net now at_read finished code page per_page start_date
                end_date s)
           = Inr \<lparr>total = 0, p_page = page, p_per_page = per_page, records = []\<rparr>)
    \<and> (\<exists>result. fst (get_fund_nav_history net now at_read finished code page per_page start_date
                        end_date s)
           = Inr result \<and> p_page result = page \<and> p_per_page result = per_page)"
  using assms
  by (auto simp: get_fund_nav_history_def Let_def empty_page_def
      split: reply.splits history_body.splits sum.splits prod.splits option.splits)

theorem get_fund_nav_history_failure_empty_witness:
  "fst (get_fund_nav_history history_down 0 0 1 ''000001'' 3 50 None (Some ''2024-03-05'') client0)
     = Inr \<lparr>total = 0, p_page = 3, p_per_page = 50, records = []\<rparr>"
proof -
  have miss: "\<not> cache_contains (history_cache client0) 0
      (history_key ''000001'' 3 50 None (Some ''2024-03-05''))"
    by (simp add: client0_def EastMoneyClient_def TTLCache_def cache_contains_def)
  have down: "history_down (HistoryReq ''000001'' 3 50 None (Some ''2024-03-05'')) = Raised"
    by (simp add: history_down_def)
  show ?thesis
    using get_fund_nav_history_failure_empty [OF miss, of history_down 0 1] down
    by blast
qed

end
